theory Spec2Isabelle
  imports Complex_Main "HOL-Library.Sublist" "HOL-Library.Multiset"
begin

section \<open>Strings and characters\<close>

text \<open>
  The source is TypeScript. A JavaScript string is a sequence of UTF-16 code units; the
  model uses \<^typ>\<open>string\<close>, whose characters are 8 bits wide and stand for the code
  units U+0000 to U+00FF. Case conversion is modelled on the ASCII letters; the other
  characters are left as they are.
\<close>

definition upper_letters :: string where
  "upper_letters = ''ABCDEFGHIJKLMNOPQRSTUVWXYZ''"

definition lower_letters :: string where
  "lower_letters = ''abcdefghijklmnopqrstuvwxyz''"

definition toLowerCase_char :: "char \<Rightarrow> char" where
  "toLowerCase_char c =
     (case map_of (zip upper_letters lower_letters) c of Some l \<Rightarrow> l | None \<Rightarrow> c)"

definition toUpperCase_char :: "char \<Rightarrow> char" where
  "toUpperCase_char c =
     (case map_of (zip lower_letters upper_letters) c of Some u \<Rightarrow> u | None \<Rightarrow> c)"

definition toLowerCase :: "string \<Rightarrow> string" where
  "toLowerCase s = map toLowerCase_char s"

text \<open>\<^verbatim>\<open>\d\<close>: the ten decimal digits.\<close>

definition is_digit :: "char \<Rightarrow> bool" where
  "is_digit c = (c \<in> set ''0123456789'')"

text \<open>
  \<^verbatim>\<open>\s\<close>, and the characters \<^verbatim>\<open>trim()\<close> strips: white space and line
  terminators (tab, line feed, vertical tab, form feed, carriage return, space,
  no-break space).
\<close>

definition is_space :: "char \<Rightarrow> bool" where
  "is_space c = (c \<in> set [CHR 0x09, CHR 0x0A, CHR 0x0B, CHR 0x0C, CHR 0x0D, CHR 0x20, CHR 0xA0])"

text \<open>\<^verbatim>\<open>.\<close> without the \<^verbatim>\<open>s\<close> flag: any character but a line terminator.\<close>

definition is_line_terminator :: "char \<Rightarrow> bool" where
  "is_line_terminator c = (c = CHR 0x0A \<or> c = CHR 0x0D)"

definition trimStart :: "string \<Rightarrow> string" where
  "trimStart s = dropWhile is_space s"

definition trim :: "string \<Rightarrow> string" where
  "trim s = rev (dropWhile is_space (rev (dropWhile is_space s)))"

text \<open>\<^verbatim>\<open>s.startsWith(t)\<close> and \<^verbatim>\<open>s.includes(t)\<close>, both case-sensitive.\<close>

fun startsWith :: "string \<Rightarrow> string \<Rightarrow> bool" where
  "startsWith s [] = True"
| "startsWith [] (y # ys) = False"
| "startsWith (x # xs) (y # ys) = (x = y \<and> startsWith xs ys)"

fun str_includes :: "string \<Rightarrow> string \<Rightarrow> bool" where
  "str_includes [] t = (t = [])"
| "str_includes (x # xs) t = (startsWith (x # xs) t \<or> str_includes xs t)"

text \<open>\<^verbatim>\<open>s.substring(0, n)\<close> is \<^term>\<open>take n s\<close>; \<^verbatim>\<open>s.substring(n)\<close> and
  \<^verbatim>\<open>s.slice(n)\<close> with \<open>n \<ge> 0\<close> are \<^term>\<open>drop n s\<close>.\<close>

section \<open>Regular expressions\<close>

text \<open>
  Every regular expression of the two functions carries the flag \<^verbatim>\<open>i\<close> and no other,
  so matching ignores case and keeps no state (\<^verbatim>\<open>lastIndex\<close> is neither read nor
  written). The patterns are built from literals, four character classes, sequence,
  alternation, \<^verbatim>\<open>?\<close>, the quantifiers \<^verbatim>\<open>*\<close>, \<^verbatim>\<open>+\<close> and \<^verbatim>\<open>*?\<close> on a
  character class, capture groups and \<^verbatim>\<open>$\<close>.
\<close>

datatype cclass = Digit | Space | Dot | DigitOrDot

fun in_cls :: "cclass \<Rightarrow> char \<Rightarrow> bool" where
  "in_cls Digit c = is_digit c"
| "in_cls Space c = is_space c"
| "in_cls Dot c = (\<not> is_line_terminator c)"
| "in_cls DigitOrDot c = (is_digit c \<or> c = CHR ''.'')"

datatype rx =
    Lit string
  | Cls cclass
  | Seq rx rx
  | Alt rx rx
  | Opt rx
  | Star cclass
  | Plus cclass
  | LazyStar cclass
  | Grp nat rx
  | Eoi

text \<open>\<^verbatim>\<open>abc\<close> as a sequence of its parts, and \<^verbatim>\<open>w|v|...\<close> over literal words.\<close>

fun cat :: "rx list \<Rightarrow> rx" where
  "cat [] = Lit []"
| "cat [r] = r"
| "cat (r # rs) = Seq r (cat rs)"

fun any_of :: "string \<Rightarrow> string list \<Rightarrow> rx" where
  "any_of w [] = Lit w"
| "any_of w (v # vs) = Alt (Lit w) (any_of v vs)"

text \<open>
  Canonicalize of the specification of the language, for the flag \<^verbatim>\<open>i\<close>: a pattern
  character and an input character match when their upper-case forms agree. No
  non-ASCII character is mapped to an ASCII one.
\<close>

fun lit_m :: "string \<Rightarrow> string \<Rightarrow> string option" where
  "lit_m [] s = Some s"
| "lit_m (c # cs) [] = None"
| "lit_m (c # cs) (x # xs) =
     (if toUpperCase_char c = toUpperCase_char x then lit_m cs xs else None)"

type_synonym groups = "nat \<Rightarrow> string option"

text \<open>
  The backtracking matcher, in continuation-passing style: \<open>rx_m r s g k\<close> matches
  \<open>r\<close> at the front of \<open>s\<close> and hands the rest of the input and the captures to
  \<open>k\<close>; when \<open>k\<close> fails, the next alternative of \<open>r\<close> is tried, in the order of the
  language (greedy quantifiers the longest first, lazy ones the shortest first).
\<close>

fun star_m :: "(char \<Rightarrow> bool) \<Rightarrow> string \<Rightarrow> (string \<Rightarrow> 'a option) \<Rightarrow> 'a option" where
  "star_m p [] k = k []"
| "star_m p (x # xs) k =
     (if p x then (case star_m p xs k of Some r \<Rightarrow> Some r | None \<Rightarrow> k (x # xs))
      else k (x # xs))"

fun lazy_m :: "(char \<Rightarrow> bool) \<Rightarrow> string \<Rightarrow> (string \<Rightarrow> 'a option) \<Rightarrow> 'a option" where
  "lazy_m p [] k = k []"
| "lazy_m p (x # xs) k =
     (case k (x # xs) of Some r \<Rightarrow> Some r
      | None \<Rightarrow> if p x then lazy_m p xs k else None)"

fun rx_m :: "rx \<Rightarrow> string \<Rightarrow> groups \<Rightarrow> (string \<Rightarrow> groups \<Rightarrow> (string \<times> groups) option)
    \<Rightarrow> (string \<times> groups) option" where
  "rx_m (Lit l) s g k = (case lit_m l s of None \<Rightarrow> None | Some s' \<Rightarrow> k s' g)"
| "rx_m (Cls c) s g k =
     (case s of [] \<Rightarrow> None | x # xs \<Rightarrow> if in_cls c x then k xs g else None)"
| "rx_m (Seq a b) s g k = rx_m a s g (\<lambda>s' g'. rx_m b s' g' k)"
| "rx_m (Alt a b) s g k =
     (case rx_m a s g k of Some r \<Rightarrow> Some r | None \<Rightarrow> rx_m b s g k)"
| "rx_m (Opt a) s g k =
     (case rx_m a s g k of Some r \<Rightarrow> Some r | None \<Rightarrow> k s g)"
| "rx_m (Star c) s g k = star_m (in_cls c) s (\<lambda>s'. k s' g)"
| "rx_m (Plus c) s g k =
     (case s of [] \<Rightarrow> None
      | x # xs \<Rightarrow> if in_cls c x then star_m (in_cls c) xs (\<lambda>s'. k s' g) else None)"
| "rx_m (LazyStar c) s g k = lazy_m (in_cls c) s (\<lambda>s'. k s' g)"
| "rx_m (Grp n a) s g k =
     rx_m a s g (\<lambda>s' g'. k s' (g'(n \<mapsto> take (length s - length s') s)))"
| "rx_m Eoi s g k = (if s = [] then k s g else None)"

text \<open>
  The result of \<^verbatim>\<open>s.match(re)\<close> for a regular expression without the flag \<^verbatim>\<open>g\<close>:
  \<^verbatim>\<open>null\<close>, or the array of the leftmost match with its \<^verbatim>\<open>index\<close>. \<open>full\<close> is
  \<^verbatim>\<open>match[0]\<close> and \<open>grp m n\<close> is \<^verbatim>\<open>match[n]\<close>, \<open>None\<close> standing for
  \<^verbatim>\<open>undefined\<close>.
\<close>

record jsmatch =
  index :: nat
  full :: string
  grp :: groups

definition rx_at :: "rx \<Rightarrow> string \<Rightarrow> (string \<times> groups) option" where
  "rx_at r s = rx_m r s Map.empty (\<lambda>s' g. Some (s', g))"

fun rx_search :: "rx \<Rightarrow> string \<Rightarrow> nat \<Rightarrow> jsmatch option" where
  "rx_search r [] i =
     (case rx_at r [] of None \<Rightarrow> None
      | Some (s', g) \<Rightarrow> Some \<lparr>index = i, full = [], grp = g\<rparr>)"
| "rx_search r (x # xs) i =
     (case rx_at r (x # xs) of None \<Rightarrow> rx_search r xs (Suc i)
      | Some (s', g) \<Rightarrow>
          Some \<lparr>index = i, full = take (length (x # xs) - length s') (x # xs), grp = g\<rparr>)"

definition match :: "string \<Rightarrow> rx \<Rightarrow> jsmatch option" where
  "match s r = rx_search r s 0"

text \<open>\<^verbatim>\<open>re.test(s)\<close>.\<close>

definition test :: "rx \<Rightarrow> string \<Rightarrow> bool" where
  "test r s = (match s r \<noteq> None)"

text \<open>\<^verbatim>\<open>ToString(match[n])\<close>, and the truth value of \<^verbatim>\<open>match[n]\<close> in a condition:
  \<^verbatim>\<open>undefined\<close> and the empty string are false.\<close>

definition toString :: "string option \<Rightarrow> string" where
  "toString v = (case v of None \<Rightarrow> ''undefined'' | Some s \<Rightarrow> s)"

definition truthy :: "string option \<Rightarrow> bool" where
  "truthy v = (case v of None \<Rightarrow> False | Some s \<Rightarrow> s \<noteq> [])"

section \<open>Numbers\<close>

text \<open>
  A JavaScript number is modelled as \<open>NaN\<close> or an exact rational: the rounding of
  IEEE 754 doubles, the infinities and the sign of zero are not modelled. Every
  operation and comparison with \<open>NaN\<close> follows the language: the operations return
  \<open>NaN\<close>, the comparisons are false.
\<close>

datatype jsnum = NaN | Num rat

fun js_add :: "jsnum \<Rightarrow> jsnum \<Rightarrow> jsnum" where
  "js_add (Num a) (Num b) = Num (a + b)"
| "js_add _ _ = NaN"

fun js_sub :: "jsnum \<Rightarrow> jsnum \<Rightarrow> jsnum" where
  "js_sub (Num a) (Num b) = Num (a - b)"
| "js_sub _ _ = NaN"

fun js_mul :: "jsnum \<Rightarrow> jsnum \<Rightarrow> jsnum" where
  "js_mul (Num a) (Num b) = Num (a * b)"
| "js_mul _ _ = NaN"

fun js_lt :: "jsnum \<Rightarrow> jsnum \<Rightarrow> bool" where
  "js_lt (Num a) (Num b) = (a < b)"
| "js_lt _ _ = False"

fun js_le :: "jsnum \<Rightarrow> jsnum \<Rightarrow> bool" where
  "js_le (Num a) (Num b) = (a \<le> b)"
| "js_le _ _ = False"

definition js_gt :: "jsnum \<Rightarrow> jsnum \<Rightarrow> bool" where
  "js_gt a b = js_lt b a"

definition js_ge :: "jsnum \<Rightarrow> jsnum \<Rightarrow> bool" where
  "js_ge a b = js_le b a"

text \<open>\<^verbatim>\<open>a === b\<close> on numbers: \<open>NaN\<close> is not equal to itself.\<close>

fun js_eq :: "jsnum \<Rightarrow> jsnum \<Rightarrow> bool" where
  "js_eq (Num a) (Num b) = (a = b)"
| "js_eq _ _ = False"

fun Math_max :: "jsnum \<Rightarrow> jsnum \<Rightarrow> jsnum" where
  "Math_max (Num a) (Num b) = Num (max a b)"
| "Math_max _ _ = NaN"

fun Math_min :: "jsnum \<Rightarrow> jsnum \<Rightarrow> jsnum" where
  "Math_min (Num a) (Num b) = Num (min a b)"
| "Math_min _ _ = NaN"

text \<open>\<^verbatim>\<open>Math.round\<close>: the nearest integer, a tie going up.\<close>

fun Math_round :: "jsnum \<Rightarrow> jsnum" where
  "Math_round (Num a) = Num (of_int \<lfloor>a + 1 / 2\<rfloor>)"
| "Math_round NaN = NaN"

definition digit_val :: "char \<Rightarrow> nat option" where
  "digit_val c = map_of (zip ''0123456789'' [0, 1, 2, 3, 4, 5, 6, 7, 8, 9]) c"

definition hex_val :: "char \<Rightarrow> nat option" where
  "hex_val c =
     map_of (zip ''0123456789abcdef'' [0, 1, 2, 3, 4, 5, 6, 7, 8, 9, 10, 11, 12, 13, 14, 15])
       (toLowerCase_char c)"

text \<open>The value of a string of digits in a base, the most significant digit first.\<close>

definition digits_val :: "nat \<Rightarrow> (char \<Rightarrow> nat option) \<Rightarrow> string \<Rightarrow> nat" where
  "digits_val base dv ds = foldl (\<lambda>acc c. acc * base + (case dv c of None \<Rightarrow> 0 | Some d \<Rightarrow> d)) 0 ds"

text \<open>An optional sign at the front: whether it is a minus, and the rest.\<close>

fun split_sign :: "string \<Rightarrow> bool \<times> string" where
  "split_sign (c # cs) =
     (if c = CHR ''-'' then (True, cs) else if c = CHR ''+'' then (False, cs)
      else (False, c # cs))"
| "split_sign [] = (False, [])"

definition signed :: "bool \<Rightarrow> rat \<Rightarrow> jsnum" where
  "signed neg v = Num (if neg then - v else v)"

text \<open>
  \<^verbatim>\<open>parseInt(s)\<close> without a radix: leading white space is skipped, a sign is
  read, \<^verbatim>\<open>0x\<close> selects base 16, and the longest prefix of digits is the value; with
  no digit the result is \<open>NaN\<close>.
\<close>

definition parseInt :: "string \<Rightarrow> jsnum" where
  "parseInt s =
     (let (neg, t) = split_sign (trimStart s) in
      if startsWith t ''0x'' \<or> startsWith t ''0X'' then
        (let ds = takeWhile (\<lambda>c. hex_val c \<noteq> None) (drop 2 t) in
         if ds = [] then NaN else signed neg (of_nat (digits_val 16 hex_val ds)))
      else
        (let ds = takeWhile is_digit t in
         if ds = [] then NaN else signed neg (of_nat (digits_val 10 digit_val ds))))"

text \<open>
  \<^verbatim>\<open>parseFloat(s)\<close>: leading white space is skipped, and the longest prefix that is
  a decimal literal is the value: a sign, digits, a point and more digits, with a digit
  on one side of the point at least, and an exponent when a digit follows its
  \<^verbatim>\<open>e\<close>. The literal \<^verbatim>\<open>Infinity\<close> has no value in the model and gives \<open>NaN\<close>.
\<close>

definition exponent :: "string \<Rightarrow> int" where
  "exponent r =
     (case r of
        [] \<Rightarrow> 0
      | c # cs \<Rightarrow>
          if c = CHR ''e'' \<or> c = CHR ''E'' then
            (let (neg, t) = split_sign cs; ds = takeWhile is_digit t in
             if neg then - int (digits_val 10 digit_val ds) else int (digits_val 10 digit_val ds))
          else 0)"

definition parseFloat :: "string \<Rightarrow> jsnum" where
  "parseFloat s =
     (let (neg, t) = split_sign (trimStart s);
          ip = takeWhile is_digit t;
          r = dropWhile is_digit t;
          fp = (case r of [] \<Rightarrow> [] | c # cs \<Rightarrow> if c = CHR ''.'' then takeWhile is_digit cs else []);
          r' = (case r of [] \<Rightarrow> []
                | c # cs \<Rightarrow> if c = CHR ''.'' then dropWhile is_digit cs else c # cs);
          m = of_nat (digits_val 10 digit_val ip)
              + of_nat (digits_val 10 digit_val fp) / 10 ^ length fp
      in if ip = [] \<and> fp = [] then NaN
         else signed neg (m * 10 powi exponent r'))"

section \<open>formatTechnicalSeoResults\<close>

datatype error = TypeError

record critical_issue =
  issue_category :: string
  issue :: string
  impact :: string
  issue_recommendation :: string

record improvement =
  category :: string
  recommendation :: string
  priority :: string
  effort :: string

record TechnicalSeoResult =
  overallScore :: jsnum
  structureScore :: jsnum
  performanceScore :: jsnum
  mobileScore :: jsnum
  schemaScore :: jsnum
  criticalIssues :: "critical_issue list"
  improvements :: "improvement list"

subsection \<open>Scores read from the text\<close>

text \<open>
  The loop shared by the fields that are read from the text:
  \<^verbatim>\<open>for (const regex of regexes) { const match = rawOutput.match(regex);
  if (match && match[1]) { v = f(match[1]); break; } }\<close>.
  The result is the pattern that was taken and its first group, or \<open>None\<close> when the
  loop ends without an assignment.
\<close>

fun first_capture :: "rx list \<Rightarrow> string \<Rightarrow> (rx \<times> string) option" where
  "first_capture [] rawOutput = None"
| "first_capture (regex # regexes) rawOutput =
     (case match rawOutput regex of
        None \<Rightarrow> first_capture regexes rawOutput
      | Some m \<Rightarrow>
          if truthy (grp m 1) then Some (regex, toString (grp m 1))
          else first_capture regexes rawOutput)"

definition performanceRegexes :: "rx list" where
  "performanceRegexes =
    [cat [Lit ''Performance score'', Opt (Lit '':''), Star Space, Grp 1 (Plus Digit), Lit ''/100''],
     cat [Lit ''Performance rating'', Opt (Lit '':''), Star Space, Grp 1 (Plus Digit), Lit ''/100''],
     cat [Lit ''Performance'', Opt (Lit '':''), Star Space, Grp 1 (Plus Digit), Lit ''/100''],
     cat [Lit ''Performance'', Opt (Lit '':''), Star Space, Grp 1 (Plus Digit), Lit '' out of 100''],
     cat [Lit ''Performance score of '', Grp 1 (Plus Digit)]]"

definition performanceScore_of :: "string \<Rightarrow> jsnum" where
  "performanceScore_of rawOutput =
     (case first_capture performanceRegexes rawOutput of
        None \<Rightarrow> Num 65
      | Some (regex, g) \<Rightarrow> parseInt g)"

definition mobileRegexes :: "rx list" where
  "mobileRegexes =
    [cat [Lit ''Mobile-friendly score'', Opt (Lit '':''), Star Space, Grp 1 (Plus Digit), Lit ''/100''],
     cat [Lit ''Mobile score'', Opt (Lit '':''), Star Space, Grp 1 (Plus Digit), Lit ''/100''],
     cat [Lit ''Mobile'', Opt (Lit '':''), Star Space, Grp 1 (Plus Digit), Lit ''/100''],
     cat [Lit ''Mobile-friendliness'', Opt (Lit '':''), Star Space, Grp 1 (Plus Digit), Lit ''/100''],
     cat [Lit ''Mobile optimization score'', Opt (Lit '':''), Star Space, Grp 1 (Plus Digit)]]"

definition mobileScore_of :: "string \<Rightarrow> jsnum" where
  "mobileScore_of rawOutput =
     (case first_capture mobileRegexes rawOutput of
        None \<Rightarrow> Num 70
      | Some (regex, g) \<Rightarrow> parseInt g)"

subsection \<open>The structure score, from signals\<close>

record signal =
  pattern :: rx
  points :: jsnum

definition structureSignals :: "signal list" where
  "structureSignals =
    [\<lparr>pattern = Lit ''Clean, semantic URLs'', points = Num 10\<rparr>,
     \<lparr>pattern = Lit ''Breadcrumb navigation: Present'', points = Num 5\<rparr>,
     \<lparr>pattern = Lit ''H1 headings: 1 detected'', points = Num 5\<rparr>,
     \<lparr>pattern = Lit ''Canonical URL: Present'', points = Num 5\<rparr>,
     \<lparr>pattern = Lit ''Sitemap: Referenced'', points = Num 5\<rparr>,
     \<lparr>pattern = cat [Lit ''Robots'', Cls Dot, Lit ''txt: Present''], points = Num 5\<rparr>,
     \<lparr>pattern = cat [Lit ''Information architecture:'', LazyStar Dot, Lit ''good''],
      points = Num 10\<rparr>,
     \<lparr>pattern = cat [Lit ''Internal links:'', LazyStar Dot, Lit ''found''], points = Num 5\<rparr>,
     \<lparr>pattern = cat [Lit ''URL structure:'', LazyStar Dot, Lit ''clean''], points = Num 10\<rparr>,
     \<lparr>pattern = Lit ''Site navigation: Present'', points = Num 5\<rparr>]"

definition negativeStructureSignals :: "signal list" where
  "negativeStructureSignals =
    [\<lparr>pattern = Lit ''H1 headings: 0 detected'', points = Num (- 10)\<rparr>,
     \<lparr>pattern = cat [Lit ''H1 headings:'', LazyStar Dot, Lit ''Too many''], points = Num (- 5)\<rparr>,
     \<lparr>pattern = Lit ''Canonical URL: Missing'', points = Num (- 10)\<rparr>,
     \<lparr>pattern = cat [Lit ''Robots'', Cls Dot, Lit ''txt: Not found''], points = Num (- 5)\<rparr>,
     \<lparr>pattern = Lit ''Sitemap: Not detected'', points = Num (- 5)\<rparr>,
     \<lparr>pattern = Lit ''duplicate content issues'', points = Num (- 10)\<rparr>,
     \<lparr>pattern = Lit ''URLs contain undesirable elements'', points = Num (- 10)\<rparr>,
     \<lparr>pattern = Lit ''Site navigation: Not clearly defined'', points = Num (- 5)\<rparr>]"

text \<open>\<^verbatim>\<open>for (const signal of signals) { if (signal.pattern.test(rawOutput))
  { score += signal.points; } }\<close>\<close>

fun apply_signals :: "signal list \<Rightarrow> string \<Rightarrow> jsnum \<Rightarrow> jsnum" where
  "apply_signals [] rawOutput score = score"
| "apply_signals (sig # signals) rawOutput score =
     apply_signals signals rawOutput
       (if test (pattern sig) rawOutput then js_add score (points sig) else score)"

definition structureScore_of :: "string \<Rightarrow> jsnum" where
  "structureScore_of rawOutput =
     (let structureScore = Num 70;
          structureScore = apply_signals structureSignals rawOutput structureScore;
          structureScore = apply_signals negativeStructureSignals rawOutput structureScore
      in Math_max (Num 0) (Math_min (Num 100) structureScore))"

subsection \<open>The schema score\<close>

definition schemaRegexes :: "rx list" where
  "schemaRegexes =
    [cat [Lit ''Schema score'', Opt (Lit '':''), Star Space, Grp 1 (Plus Digit), Lit ''/100''],
     cat [Lit ''Structured data score'', Opt (Lit '':''), Star Space, Grp 1 (Plus Digit), Lit ''/100''],
     cat [Lit ''Schema markup rating'', Opt (Lit '':''), Star Space, Grp 1 (Plus Digit)]]"

definition schemaScore_of :: "string \<Rightarrow> jsnum" where
  "schemaScore_of rawOutput =
     (let schemaScore =
            (case first_capture schemaRegexes rawOutput of
               None \<Rightarrow> Num (- 1)
             | Some (regex, g) \<Rightarrow> parseInt g)
      in if js_eq schemaScore (Num (- 1)) then
           (let schemaScore =
                  (if str_includes rawOutput ''Likely eligible'' then Num 90
                   else if str_includes rawOutput ''Partially eligible'' then Num 70
                   else if str_includes rawOutput ''Schema types detected''
                           \<and> \<not> str_includes rawOutput ''None detected'' then Num 60
                   else if str_includes rawOutput ''Schema types detected: None detected''
                           \<or> str_includes rawOutput ''No schema detected'' then Num 30
                   else Num 50);
                schemaScore =
                  (if str_includes rawOutput ''JSON-LD instances:''
                      \<and> \<not> str_includes rawOutput ''JSON-LD instances: 0''
                   then js_add schemaScore (Num 10) else schemaScore);
                schemaScore =
                  (if str_includes rawOutput ''Within <head> tag (recommended)''
                   then js_add schemaScore (Num 5) else schemaScore);
                schemaScore =
                  (if str_includes rawOutput ''Missing recommended properties''
                   then js_sub schemaScore (Num 15) else schemaScore)
            in Math_max (Num 0) (Math_min (Num 100) schemaScore))
         else schemaScore)"

subsection \<open>The overall score\<close>

definition overallScore_of :: "jsnum \<Rightarrow> jsnum \<Rightarrow> jsnum \<Rightarrow> jsnum \<Rightarrow> jsnum" where
  "overallScore_of performance mobile structure schema =
     Math_round
       (js_add
          (js_add
             (js_add (js_mul performance (Num (4 / 10))) (js_mul mobile (Num (25 / 100))))
             (js_mul structure (Num (2 / 10))))
          (js_mul schema (Num (15 / 100))))"

subsection \<open>Scanning the text for fragments\<close>

text \<open>
  The loops that collect issues, improvements and recommendations have one shape:
  \<^verbatim>\<open>
  for (const regex of regexes) {
    let startPos = 0; let match;
    while ((match = rawOutput.substring(startPos).match(regex)) !== null) {
      body;
      startPos += match.index + fullMatch.length;
      if (list.length >= limit) break;
    }
    if (list.length >= limit) break;
  }
  \<close>
  \<open>body\<close> takes the match and the list and returns the list, or the error it throws;
  \<open>stop\<close> is the test of the two \<^verbatim>\<open>break\<close>s. Nothing in the source bounds the
  number of rounds of the \<^verbatim>\<open>while\<close>, so the loop is a partial function: \<open>None\<close>
  stands for a loop that never ends.
\<close>

partial_function (option) scan_while ::
  "(jsmatch \<Rightarrow> 'a list \<Rightarrow> error + 'a list) \<Rightarrow> ('a list \<Rightarrow> bool) \<Rightarrow> rx \<Rightarrow> string \<Rightarrow> nat
     \<Rightarrow> 'a list \<Rightarrow> (error + 'a list) option" where
  "scan_while body stop regex rawOutput startPos acc =
     (case match (drop startPos rawOutput) regex of
        None \<Rightarrow> Some (Inr acc)
      | Some m \<Rightarrow>
          (case body m acc of
             Inl e \<Rightarrow> Some (Inl e)
           | Inr acc' \<Rightarrow>
               if stop acc' then Some (Inr acc')
               else scan_while body stop regex rawOutput
                      (startPos + index m + length (full m)) acc'))"

declare scan_while.simps [code]

fun scan_for ::
  "(jsmatch \<Rightarrow> 'a list \<Rightarrow> error + 'a list) \<Rightarrow> ('a list \<Rightarrow> bool) \<Rightarrow> rx list \<Rightarrow> string
     \<Rightarrow> 'a list \<Rightarrow> (error + 'a list) option" where
  "scan_for body stop [] rawOutput acc = Some (Inr acc)"
| "scan_for body stop (regex # regexes) rawOutput acc =
     (case scan_while body stop regex rawOutput 0 acc of
        None \<Rightarrow> None
      | Some (Inl e) \<Rightarrow> Some (Inl e)
      | Some (Inr acc') \<Rightarrow>
          if stop acc' then Some (Inr acc') else scan_for body stop regexes rawOutput acc')"

text \<open>\<^verbatim>\<open>s.split(/\.|;/)[0]\<close>: the text before the first full stop or semicolon.\<close>

definition first_sentence :: "string \<Rightarrow> string" where
  "first_sentence s = takeWhile (\<lambda>c. c \<noteq> CHR ''.'' \<and> c \<noteq> CHR '';'') s"

text \<open>\<^verbatim>\<open>s.charAt(0).toUpperCase() + s.slice(1)\<close> and \<^verbatim>\<open>s.endsWith('.')\<close>.\<close>

definition capitalize :: "string \<Rightarrow> string" where
  "capitalize s = (case s of [] \<Rightarrow> [] | c # cs \<Rightarrow> toUpperCase_char c # cs)"

definition endsWith_dot :: "string \<Rightarrow> bool" where
  "endsWith_dot s = (s \<noteq> [] \<and> last s = CHR ''.'')"

text \<open>\<^verbatim>\<open>if (c) list.push(x)\<close>.\<close>

definition push_if :: "bool \<Rightarrow> 'a \<Rightarrow> 'a list \<Rightarrow> 'a list" where
  "push_if c x xs = (if c then xs @ [x] else xs)"

subsection \<open>Critical issues\<close>

definition issueRegexes :: "rx list" where
  "issueRegexes =
    [cat [Lit ''critical issue'', Opt (Lit '':''), Star Space, Grp 1 (LazyStar Dot),
          Grp 2 (Alt (Lit [CHR 0x0A]) Eoi)],
     cat [Lit ''major problem'', Opt (Lit '':''), Star Space, Grp 1 (LazyStar Dot),
          Grp 2 (Alt (Lit [CHR 0x0A]) Eoi)],
     cat [Lit ''significant issue'', Opt (Lit '':''), Star Space, Grp 1 (LazyStar Dot),
          Grp 2 (Alt (Lit [CHR 0x0A]) Eoi)],
     cat [Lit ''high priority'', Opt (Lit '':''), Star Space, Grp 1 (LazyStar Dot),
          Grp 2 (Alt (Lit [CHR 0x0A]) Eoi)],
     cat [Lit ''urgent fix'', Opt (Lit '':''), Star Space, Grp 1 (LazyStar Dot),
          Grp 2 (Alt (Lit [CHR 0x0A]) Eoi)]]"

definition issue_category_of :: "string \<Rightarrow> string" where
  "issue_category_of fragment =
     (if test (any_of ''performance'' [''speed'', ''load time'', ''core web vitals'', ''lcp'',
                 ''fid'', ''cls'', ''render'', ''resource'']) fragment then ''Performance''
      else if test (any_of ''mobile'' [''viewport'', ''tap target'', ''screen size'',
                 ''responsive'']) fragment then ''Mobile''
      else if test (any_of ''schema'' [''structured data'', ''markup'', ''json-ld'', ''microdata'',
                 ''rich result'']) fragment then ''Schema''
      else if test (any_of ''structure'' [''url'', ''h1'', ''canonical'', ''sitemap'', ''robot'',
                 ''navigation'', ''internal link'']) fragment then ''Structure''
      else ''Structure'')"

definition issue_impact_of :: "string \<Rightarrow> string" where
  "issue_impact_of fragment =
     (if test (any_of ''conversion'' [''bounce'', ''engagement'', ''revenue'', ''ranking'',
                 ''traffic'']) fragment
      then ''Directly impacts conversions and search rankings''
      else if test (any_of ''user experience'' [''usability'', ''accessibility'']) fragment
      then ''Degrades user experience and engagement metrics''
      else if test (any_of ''crawl'' [''index'', ''bot'', ''spider'']) fragment
      then ''Hinders search engine crawling and indexation''
      else ''Reduces search visibility and user experience'')"

definition recRegex :: rx where
  "recRegex =
     cat [Grp 1 (any_of ''should'' [''could'', ''recommend'', ''fix by'', ''implement'', ''add'',
                   ''use'', ''change'', ''improve'']),
          Lit '' '', Grp 2 (LazyStar Dot), Grp 3 (Alt (Lit ''.'') Eoi)]"

definition issue_recommendation_of :: "string \<Rightarrow> string" where
  "issue_recommendation_of fragment =
     (case match fragment recRegex of
        None \<Rightarrow> ''Fix the issue according to technical SEO best practices''
      | Some recMatch \<Rightarrow>
          if truthy (grp recMatch 2) then
            (let recommendation = trim (toString (grp recMatch 2));
                 recommendation = capitalize recommendation
             in if \<not> endsWith_dot recommendation then recommendation @ ''.''
                else recommendation)
          else ''Fix the issue according to technical SEO best practices'')"

text \<open>
  The body of the \<^verbatim>\<open>while\<close>: \<^verbatim>\<open>match[1].trim()\<close> throws a TypeError when the
  group is \<^verbatim>\<open>undefined\<close>.
\<close>

definition issue_body :: "jsmatch \<Rightarrow> critical_issue list \<Rightarrow> error + critical_issue list" where
  "issue_body m issues =
     (case grp m 1 of
        None \<Rightarrow> Inl TypeError
      | Some g \<Rightarrow>
          (let issue = trim g in
           if length issue > 15 then
             Inr (issues @
               [\<lparr>issue_category = issue_category_of issue,
                 issue = trim (first_sentence issue),
                 impact = issue_impact_of issue,
                 issue_recommendation = issue_recommendation_of issue\<rparr>])
           else Inr issues))"

definition lcpRegex :: rx where
  "lcpRegex =
     cat [Lit ''Estimated Largest Contentful Paint'', Opt (Lit '':''), Star Space,
          Grp 1 (Plus DigitOrDot), Lit ''s'']"

definition lcp_over :: "string \<Rightarrow> bool" where
  "lcp_over rawOutput =
     (case match rawOutput lcpRegex of
        None \<Rightarrow> False
      | Some lcpMatch \<Rightarrow> js_gt (parseFloat (toString (grp lcpMatch 1))) (Num (25 / 10)))"

definition tapTargetsRegex :: rx where
  "tapTargetsRegex =
     cat [Lit ''small tap targets'', Opt (Lit '':''), Star Space, Grp 1 (Plus Digit)]"

definition tapTargets_over :: "string \<Rightarrow> bool" where
  "tapTargets_over rawOutput =
     (case match rawOutput tapTargetsRegex of
        None \<Rightarrow> False
      | Some tapTargetsMatch \<Rightarrow> js_gt (parseInt (toString (grp tapTargetsMatch 1))) (Num 5))"

definition performance_fallback_issues :: "string \<Rightarrow> critical_issue list \<Rightarrow> critical_issue list" where
  "performance_fallback_issues rawOutput issues =
     (let issues =
            push_if (str_includes rawOutput ''Render-blocking resources'')
              \<lparr>issue_category = ''Performance'',
                issue = ''Render-blocking resources detected'',
                impact = ''Slows down page rendering and initial content display'',
                issue_recommendation = ''Defer non-critical JavaScript and CSS resources''\<rparr>
              issues;
          issues =
            push_if (str_includes rawOutput ''Unoptimized images'')
              \<lparr>issue_category = ''Performance'',
                issue = ''Unoptimized images'',
                impact = ''Increases page load time and bandwidth usage'',
                issue_recommendation = ''Optimize images and implement lazy loading''\<rparr>
              issues
      in push_if (lcp_over rawOutput)
           \<lparr>issue_category = ''Performance'',
             issue = ''High Largest Contentful Paint (LCP)'',
             impact = ''Negatively affects Core Web Vitals and user experience'',
             issue_recommendation =
               ''Optimize the largest element (usually hero image) and improve server response time''\<rparr>
           issues)"

definition mobile_fallback_issues :: "string \<Rightarrow> critical_issue list \<Rightarrow> critical_issue list" where
  "mobile_fallback_issues rawOutput issues =
     (let issues =
            push_if (str_includes rawOutput ''Viewport configured: No'')
              \<lparr>issue_category = ''Mobile'',
                issue = ''Missing viewport meta tag'',
                impact = ''Page won't scale properly on mobile devices'',
                issue_recommendation =
                  ''Add a viewport meta tag with width=device-width, initial-scale=1''\<rparr>
              issues;
          issues =
            push_if (tapTargets_over rawOutput)
              \<lparr>issue_category = ''Mobile'',
                issue = ''Small tap targets'',
                impact = ''Difficult for users to tap elements on mobile devices'',
                issue_recommendation =
                  ''Increase size of buttons and interactive elements to at least 44px''\<rparr>
              issues
      in push_if (str_includes rawOutput ''Potential horizontal scrolling issues: Yes'')
           \<lparr>issue_category = ''Mobile'',
             issue = ''Horizontal scrolling issues'',
             impact = ''Poor user experience on mobile devices'',
             issue_recommendation =
               ''Implement responsive design with relative width units and proper viewport''\<rparr>
           issues)"

definition structure_fallback_issues :: "string \<Rightarrow> critical_issue list \<Rightarrow> critical_issue list" where
  "structure_fallback_issues rawOutput issues =
     (let issues =
            push_if (str_includes rawOutput ''H1 headings: 0 detected'')
              \<lparr>issue_category = ''Structure'',
                issue = ''Missing H1 heading'',
                impact = ''Reduces content hierarchy clarity for users and search engines'',
                issue_recommendation = ''Add a single H1 heading that includes the main keyword''\<rparr>
              issues;
          issues =
            push_if (str_includes rawOutput ''URL parameters may cause duplicate content'')
              \<lparr>issue_category = ''Structure'',
                issue = ''Potential duplicate content'',
                impact = ''Search engines may index multiple versions of the same page'',
                issue_recommendation = ''Implement canonical tags or fix URL parameters''\<rparr>
              issues
      in push_if (str_includes rawOutput ''Canonical URL: Missing'')
           \<lparr>issue_category = ''Structure'',
             issue = ''Missing canonical URL'',
             impact = ''May cause duplicate content issues with similar pages'',
             issue_recommendation =
               ''Add canonical tags to indicate the preferred version of the page''\<rparr>
           issues)"

definition schema_fallback_issues :: "string \<Rightarrow> critical_issue list \<Rightarrow> critical_issue list" where
  "schema_fallback_issues rawOutput issues =
     (if str_includes rawOutput ''Schema types detected: None detected'' then
        issues @
          [\<lparr>issue_category = ''Schema'',
            issue = ''Missing structured data'',
            impact = ''No rich results in search engines'',
            issue_recommendation = ''Implement JSON-LD structured data for your content type''\<rparr>]
      else if str_includes rawOutput ''Missing recommended properties:'' then
        issues @
          [\<lparr>issue_category = ''Schema'',
            issue = ''Incomplete schema markup'',
            impact = ''May not qualify for rich results in search engines'',
            issue_recommendation = ''Add missing recommended properties to schema markup''\<rparr>]
      else issues)"

definition fallback_issues ::
  "string \<Rightarrow> jsnum \<Rightarrow> jsnum \<Rightarrow> critical_issue list \<Rightarrow> critical_issue list" where
  "fallback_issues rawOutput performance mobile issues =
     (if length issues < 3 then
        (let issues =
               (if js_lt performance (Num 70)
                then performance_fallback_issues rawOutput issues else issues);
             issues =
               (if js_lt mobile (Num 70)
                then mobile_fallback_issues rawOutput issues else issues);
             issues = structure_fallback_issues rawOutput issues
         in schema_fallback_issues rawOutput issues)
      else issues)"

subsection \<open>Improvements\<close>

definition improvementRegexes :: "rx list" where
  "improvementRegexes =
    [cat [Lit ''recommend'', Alt (Lit ''ation'') (Lit ''ed''), Opt (Lit '':''), Star Space,
          Grp 1 (LazyStar Dot), Grp 2 (Alt (Lit [CHR 0x0A]) Eoi)],
     cat [Lit ''suggest'', Alt (Lit ''ion'') (Lit ''ed''), Opt (Lit '':''), Star Space,
          Grp 1 (LazyStar Dot), Grp 2 (Alt (Lit [CHR 0x0A]) Eoi)],
     cat [Lit ''improve'', Opt (Lit ''ment''), Opt (Lit '':''), Star Space,
          Grp 1 (LazyStar Dot), Grp 2 (Alt (Lit [CHR 0x0A]) Eoi)],
     cat [Lit ''fix'', Opt (Lit '':''), Star Space, Grp 1 (LazyStar Dot),
          Grp 2 (Alt (Lit [CHR 0x0A]) Eoi)],
     cat [Lit ''optimization'', Opt (Lit '':''), Star Space, Grp 1 (LazyStar Dot),
          Grp 2 (Alt (Lit [CHR 0x0A]) Eoi)]]"

text \<open>The three axes of the classification of a fragment: category, priority, effort.\<close>

definition improvement_category_of :: "string \<Rightarrow> string" where
  "improvement_category_of fragment =
     (if test (any_of ''performance'' [''speed'', ''load time'', ''core web vitals'', ''lcp'',
                 ''fid'', ''cls'', ''render'', ''resource'', ''cache'', ''compress'']) fragment
      then ''Performance''
      else if test (any_of ''mobile'' [''viewport'', ''tap target'', ''screen size'',
                 ''responsive'']) fragment then ''Mobile''
      else if test (any_of ''schema'' [''structured data'', ''markup'', ''json-ld'', ''microdata'',
                 ''rich result'']) fragment then ''Schema''
      else if test (any_of ''structure'' [''url'', ''h1'', ''canonical'', ''sitemap'', ''robot'',
                 ''navigation'', ''internal link'']) fragment then ''Structure''
      else ''Structure'')"

definition improvement_priority_of :: "string \<Rightarrow> string" where
  "improvement_priority_of fragment =
     (if test (any_of ''urgent'' [''critical'', ''important'', ''high'', ''essential'', ''must'',
                 ''significant'']) fragment then ''High''
      else if test (any_of ''consider'' [''might'', ''could'', ''option'', ''low'', ''minor''])
                 fragment then ''Low''
      else ''Medium'')"

definition improvement_effort_of :: "string \<Rightarrow> string" where
  "improvement_effort_of fragment =
     (if test (any_of ''simple'' [''easy'', ''quick'', ''straightforward'', ''minor'', ''fast''])
           fragment then ''Low''
      else if test (any_of ''complex'' [''difficult'', ''major'', ''extensive'', ''significant'',
                 ''time-consuming'']) fragment then ''High''
      else ''Medium'')"

definition improvement_body :: "jsmatch \<Rightarrow> improvement list \<Rightarrow> error + improvement list" where
  "improvement_body m directImprovements =
     (case grp m 1 of
        None \<Rightarrow> Inl TypeError
      | Some g \<Rightarrow>
          (let fragment = trim g in
           if length fragment > 20 then
             Inr (directImprovements @
               [\<lparr>category = improvement_category_of fragment,
                 recommendation = trim (first_sentence fragment) @ ''.'',
                 priority = improvement_priority_of fragment,
                 effort = improvement_effort_of fragment\<rparr>])
           else Inr directImprovements))"

definition performance_fallback_improvements :: "string \<Rightarrow> improvement list \<Rightarrow> improvement list" where
  "performance_fallback_improvements rawOutput fallbackImprovements =
     (let fallbackImprovements =
            push_if (str_includes rawOutput ''Render-blocking resources'')
              \<lparr>category = ''Performance'',
                recommendation =
                  ''Eliminate render-blocking resources by deferring non-critical CSS/JS'',
                priority = ''High'', effort = ''Medium''\<rparr>
              fallbackImprovements;
          fallbackImprovements =
            push_if (str_includes rawOutput ''Unoptimized images'')
              \<lparr>category = ''Performance'',
                recommendation = ''Optimize images and implement lazy loading'',
                priority = ''Medium'', effort = ''Low''\<rparr>
              fallbackImprovements;
          fallbackImprovements =
            push_if (lcp_over rawOutput)
              \<lparr>category = ''Performance'',
                recommendation =
                  ''Optimize Largest Contentful Paint by improving server response time and resource loading'',
                priority = ''High'', effort = ''Medium''\<rparr>
              fallbackImprovements
      in push_if (str_includes rawOutput ''Total resources:'')
           \<lparr>category = ''Performance'',
             recommendation =
               ''Reduce the number of resource requests by combining files and eliminating unnecessary scripts'',
             priority = ''Medium'', effort = ''Medium''\<rparr>
           fallbackImprovements)"

definition mobile_fallback_improvements :: "string \<Rightarrow> improvement list \<Rightarrow> improvement list" where
  "mobile_fallback_improvements rawOutput fallbackImprovements =
     (let fallbackImprovements =
            push_if (str_includes rawOutput ''small tap targets'')
              \<lparr>category = ''Mobile'',
                recommendation = ''Increase size of tap targets for better mobile usability'',
                priority = ''Medium'', effort = ''Low''\<rparr>
              fallbackImprovements;
          fallbackImprovements =
            push_if (str_includes rawOutput ''Potential horizontal scrolling issues: Yes'')
              \<lparr>category = ''Mobile'',
                recommendation = ''Fix horizontal scrolling issues with responsive design'',
                priority = ''High'', effort = ''Medium''\<rparr>
              fallbackImprovements
      in push_if (str_includes rawOutput ''Media queries: Not detected'')
           \<lparr>category = ''Mobile'',
             recommendation =
               ''Implement media queries for responsive design across all devices'',
             priority = ''High'', effort = ''Medium''\<rparr>
           fallbackImprovements)"

definition structure_fallback_improvements :: "string \<Rightarrow> improvement list \<Rightarrow> improvement list" where
  "structure_fallback_improvements rawOutput fallbackImprovements =
     (let fallbackImprovements =
            push_if (\<not> str_includes rawOutput ''Sitemap: Referenced in robots.txt'')
              \<lparr>category = ''Structure'',
                recommendation = ''Add XML sitemap and reference it in robots.txt'',
                priority = ''Medium'', effort = ''Low''\<rparr>
              fallbackImprovements;
          fallbackImprovements =
            push_if (\<not> str_includes rawOutput ''Canonical URL: Present'')
              \<lparr>category = ''Structure'',
                recommendation = ''Add canonical tags to prevent duplicate content issues'',
                priority = ''Medium'', effort = ''Low''\<rparr>
              fallbackImprovements
      in push_if (str_includes rawOutput ''H1 headings: 0 detected''
                    \<or> str_includes rawOutput ''H1 headings: Missing'')
           \<lparr>category = ''Structure'',
             recommendation =
               ''Add a single, descriptive H1 heading that includes the primary keyword'',
             priority = ''High'', effort = ''Low''\<rparr>
           fallbackImprovements)"

definition missingPropsRegex :: rx where
  "missingPropsRegex =
     cat [Lit ''Missing recommended properties'', Opt (Lit '':''), Star Space,
          Grp 1 (LazyStar Dot), Grp 2 (Alt (Lit [CHR 0x0A]) Eoi)]"

definition schema_fallback_improvements ::
  "string \<Rightarrow> jsnum \<Rightarrow> improvement list \<Rightarrow> improvement list" where
  "schema_fallback_improvements rawOutput schema fallbackImprovements =
     (if str_includes rawOutput ''Schema types detected: None detected'' then
        fallbackImprovements @
          [\<lparr>category = ''Schema'',
            recommendation =
              ''Implement JSON-LD structured data markup relevant to your content type'',
            priority = ''Medium'', effort = ''Medium''\<rparr>]
      else if str_includes rawOutput ''Missing recommended properties:'' then
        (case match rawOutput missingPropsRegex of
           None \<Rightarrow> fallbackImprovements
         | Some missingProps \<Rightarrow>
             if truthy (grp missingProps 1) then
               fallbackImprovements @
                 [\<lparr>category = ''Schema'',
                   recommendation =
                     ''Add missing schema properties: ''
                       @ take 40 (toString (grp missingProps 1)) @ ''...'',
                   priority = ''Medium'', effort = ''Low''\<rparr>]
             else fallbackImprovements)
      else if \<not> str_includes rawOutput ''JSON-LD'' \<and> js_lt schema (Num 80) then
        fallbackImprovements @
          [\<lparr>category = ''Schema'',
            recommendation =
              ''Convert existing schema markup to JSON-LD format for better compatibility'',
            priority = ''Low'', effort = ''Medium''\<rparr>]
      else fallbackImprovements)"

definition fallback_improvements :: "string \<Rightarrow> jsnum \<Rightarrow> jsnum \<Rightarrow> jsnum \<Rightarrow> improvement list" where
  "fallback_improvements rawOutput performance mobile schema =
     (let fallbackImprovements = [];
          fallbackImprovements =
            (if js_lt performance (Num 90)
             then performance_fallback_improvements rawOutput fallbackImprovements
             else fallbackImprovements);
          fallbackImprovements =
            (if js_lt mobile (Num 90)
             then mobile_fallback_improvements rawOutput fallbackImprovements
             else fallbackImprovements);
          fallbackImprovements = structure_fallback_improvements rawOutput fallbackImprovements
      in schema_fallback_improvements rawOutput schema fallbackImprovements)"

subsection \<open>Removal of duplicates\<close>

text \<open>
  \<^verbatim>\<open>improvements.reduce((acc, current) => { const isDuplicate = acc.some(item => ...);
  if (!isDuplicate) { acc.push(current); } return acc; }, [])\<close>
\<close>

definition similar :: "improvement \<Rightarrow> improvement \<Rightarrow> bool" where
  "similar item current =
     (category item = category current \<and>
      (str_includes (toLowerCase (recommendation item))
         (take 20 (toLowerCase (recommendation current))) \<or>
       str_includes (toLowerCase (recommendation current))
         (take 20 (toLowerCase (recommendation item)))))"

definition isDuplicate :: "improvement list \<Rightarrow> improvement \<Rightarrow> bool" where
  "isDuplicate acc current = list_ex (\<lambda>item. similar item current) acc"

definition dedupe_step :: "improvement list \<Rightarrow> improvement \<Rightarrow> improvement list" where
  "dedupe_step acc current = (if isDuplicate acc current then acc else acc @ [current])"

definition uniqueImprovements :: "improvement list \<Rightarrow> improvement list" where
  "uniqueImprovements xs = foldl dedupe_step [] xs"

subsection \<open>The function\<close>

definition formatTechnicalSeoResults :: "string \<Rightarrow> (error + TechnicalSeoResult) option" where
  "formatTechnicalSeoResults rawOutput =
     (let performance = performanceScore_of rawOutput;
          mobile = mobileScore_of rawOutput;
          structure = structureScore_of rawOutput;
          schema = schemaScore_of rawOutput;
          overall = overallScore_of performance mobile structure schema
      in case scan_for issue_body (\<lambda>issues. length issues \<ge> 5) issueRegexes rawOutput [] of
           None \<Rightarrow> None
         | Some (Inl e) \<Rightarrow> Some (Inl e)
         | Some (Inr issues) \<Rightarrow>
             (let issues = fallback_issues rawOutput performance mobile issues in
              case scan_for improvement_body (\<lambda>xs. length xs \<ge> 7) improvementRegexes
                     rawOutput [] of
                None \<Rightarrow> None
              | Some (Inl e) \<Rightarrow> Some (Inl e)
              | Some (Inr directImprovements) \<Rightarrow>
                  (let fallbackImprovements =
                         fallback_improvements rawOutput performance mobile schema;
                       xs = (if length directImprovements \<ge> 4 then directImprovements
                             else directImprovements @ fallbackImprovements)
                   in Some (Inr
                        \<lparr>overallScore = overall,
                          structureScore = structure,
                          performanceScore = performance,
                          mobileScore = mobile,
                          schemaScore = schema,
                          criticalIssues = take 3 issues,
                          improvements = take 5 (uniqueImprovements xs)\<rparr>))))"

section \<open>formatContentResults\<close>

record content_recommendation =
  rec_priority :: string
  rec_category :: string
  suggestion :: string

text \<open>The two fields declared with \<^verbatim>\<open>?\<close> in the type are optional.\<close>

record ContentOptimizationResult =
  contentScore :: jsnum
  readabilityScore :: jsnum
  keywordScore :: jsnum
  semanticScore :: jsnum
  recommendations :: "content_recommendation list"
  missingSubtopics :: "string list"
  improvedTitle :: "string option"
  improvedMetaDescription :: "string option"

text \<open>The code divides by 10 only; a division by zero, an infinity in the language, has
  no value in the model.\<close>

fun js_div :: "jsnum \<Rightarrow> jsnum \<Rightarrow> jsnum" where
  "js_div (Num a) (Num b) = (if b = 0 then NaN else Num (a / b))"
| "js_div _ _ = NaN"

subsection \<open>Readability and keyword scores\<close>

definition readabilityRegexes :: "rx list" where
  "readabilityRegexes =
    [cat [Lit ''Flesch-Kincaid score'', Opt (Lit '':''), Star Space, Grp 1 (Plus Digit)],
     cat [Lit ''readability score'', Opt (Lit '':''), Star Space, Grp 1 (Plus Digit)],
     cat [Lit ''FK score'', Opt (Lit '':''), Star Space, Grp 1 (Plus Digit)],
     cat [Lit ''readability'', Opt (Lit '':''), Star Space, Grp 1 (Plus Digit)],
     cat [Lit ''readability rating of '', Grp 1 (Plus Digit)]]"

definition readabilityScore_of :: "string \<Rightarrow> jsnum" where
  "readabilityScore_of rawOutput =
     (case first_capture readabilityRegexes rawOutput of
        None \<Rightarrow> Num 65
      | Some (regex, g) \<Rightarrow> parseInt g)"

definition keywordDensityRegexes :: "rx list" where
  "keywordDensityRegexes =
    [cat [Lit ''keyword density'', Opt (Lit '':''), Star Space, Grp 1 (Plus DigitOrDot), Lit ''%''],
     cat [Lit ''density'', Opt (Lit '':''), Star Space, Grp 1 (Plus DigitOrDot), Lit ''%''],
     cat [Lit ''keyword frequency'', Opt (Lit '':''), Star Space, Grp 1 (Plus DigitOrDot), Lit ''%''],
     cat [Lit ''keyword usage'', Opt (Lit '':''), Star Space, Grp 1 (Plus DigitOrDot), Lit ''%''],
     cat [Lit ''keyword appears at '', Alt (Lit ''a'') (Lit ''an''), Lit '' '',
          Grp 1 (Plus DigitOrDot), Lit ''% density'']]"

definition keywordDensity_of :: "string \<Rightarrow> jsnum" where
  "keywordDensity_of rawOutput =
     (case first_capture keywordDensityRegexes rawOutput of
        None \<Rightarrow> Num (15 / 10)
      | Some (regex, g) \<Rightarrow> parseFloat g)"

definition h1InclusionRegexes :: "rx list" where
  "h1InclusionRegexes =
    [cat [Lit ''H1/Title inclusion'', Opt (Lit '':''), Star Space, Lit ''Yes''],
     cat [Lit ''keyword'', LazyStar Dot, Lit ''found'', LazyStar Dot, Lit ''H1''],
     cat [Lit ''H1'', LazyStar Dot, Lit ''contains'', LazyStar Dot, Lit ''keyword''],
     cat [Lit ''keyword'', LazyStar Dot, Lit ''present'', LazyStar Dot, Lit ''title''],
     cat [Lit ''title'', LazyStar Dot, Lit ''includes'', LazyStar Dot, Lit ''keyword'']]"

definition introInclusionRegexes :: "rx list" where
  "introInclusionRegexes =
    [cat [Lit ''First 100 words'', Opt (Lit '':''), Star Space, Lit ''Yes''],
     cat [Lit ''keyword'', LazyStar Dot, Lit ''found'', LazyStar Dot, Lit ''introduction''],
     cat [Lit ''keyword'', LazyStar Dot, Lit ''present'', LazyStar Dot, Lit ''beginning''],
     cat [Lit ''introduction'', LazyStar Dot, Lit ''contains'', LazyStar Dot, Lit ''keyword''],
     cat [Lit ''keyword'', LazyStar Dot, Lit ''appears'', LazyStar Dot, Lit ''first'',
          LazyStar Dot, Lit ''paragraph'']]"

text \<open>\<^verbatim>\<open>for (const regex of regexes) { if (regex.test(rawOutput)) { flag = true; break; } }\<close>\<close>

definition any_test :: "rx list \<Rightarrow> string \<Rightarrow> bool" where
  "any_test regexes rawOutput = list_ex (\<lambda>regex. test regex rawOutput) regexes"

definition keywordScore_of :: "jsnum \<Rightarrow> bool \<Rightarrow> bool \<Rightarrow> jsnum" where
  "keywordScore_of keywordDensity keywordInH1 keywordInIntro =
     (let keywordScore = Num 60;
          keywordScore =
            (if js_ge keywordDensity (Num (5 / 10)) \<and> js_le keywordDensity (Num (25 / 10))
               then js_add keywordScore (Num 20)
             else if js_gt keywordDensity (Num (25 / 10)) \<and> js_le keywordDensity (Num (35 / 10))
               then js_add keywordScore (Num 10)
             else if js_gt keywordDensity (Num (35 / 10)) then js_sub keywordScore (Num 10)
             else if js_lt keywordDensity (Num (5 / 10)) then js_sub keywordScore (Num 15)
             else keywordScore);
          keywordScore = (if keywordInH1 then js_add keywordScore (Num 10) else keywordScore);
          keywordScore = (if keywordInIntro then js_add keywordScore (Num 10) else keywordScore)
      in Math_min (Num 100) (Math_max (Num 0) keywordScore))"

subsection \<open>The semantic score and the content score\<close>

definition semanticScoreRegexes :: "rx list" where
  "semanticScoreRegexes =
    [cat [Lit ''Topic coverage score'', Opt (Lit '':''), Star Space, Grp 1 (Plus DigitOrDot), Lit ''/10''],
     cat [Lit ''semantic relevance'', Opt (Lit '':''), Star Space, Grp 1 (Plus DigitOrDot), Lit ''/10''],
     cat [Lit ''semantic score'', Opt (Lit '':''), Star Space, Grp 1 (Plus DigitOrDot), Lit ''/10''],
     cat [Lit ''semantic depth'', Opt (Lit '':''), Star Space, Grp 1 (Plus DigitOrDot), Lit ''/10''],
     cat [Lit ''topical coverage'', Opt (Lit '':''), Star Space, Grp 1 (Plus DigitOrDot), Lit ''/10''],
     cat [Lit ''semantic coverage of '', Grp 1 (Plus Digit), Lit ''%''],
     cat [Lit ''topic coverage'', Opt (Lit '':''), Star Space, Grp 1 (Plus Digit), Lit ''%'']]"

text \<open>\<^verbatim>\<open>regex.toString().includes('%')\<close>: a percent sign in the source of the pattern,
  where it can only stand in a literal.\<close>

fun source_includes_percent :: "rx \<Rightarrow> bool" where
  "source_includes_percent (Lit l) = (CHR ''%'' \<in> set l)"
| "source_includes_percent (Seq a b) = (source_includes_percent a \<or> source_includes_percent b)"
| "source_includes_percent (Alt a b) = (source_includes_percent a \<or> source_includes_percent b)"
| "source_includes_percent (Opt a) = source_includes_percent a"
| "source_includes_percent (Grp n a) = source_includes_percent a"
| "source_includes_percent _ = False"

definition topicScoreRaw_of :: "string \<Rightarrow> jsnum" where
  "topicScoreRaw_of rawOutput =
     (case first_capture semanticScoreRegexes rawOutput of
        None \<Rightarrow> Num 7
      | Some (regex, g) \<Rightarrow>
          if source_includes_percent regex then js_div (parseInt g) (Num 10)
          else parseFloat g)"

definition semanticScore_of :: "string \<Rightarrow> jsnum" where
  "semanticScore_of rawOutput = Math_round (js_mul (topicScoreRaw_of rawOutput) (Num 10))"

definition contentScore_of :: "jsnum \<Rightarrow> jsnum \<Rightarrow> jsnum \<Rightarrow> jsnum" where
  "contentScore_of readability keyword semantic =
     Math_round
       (js_add
          (js_add (js_mul readability (Num (3 / 10))) (js_mul keyword (Num (4 / 10))))
          (js_mul semantic (Num (3 / 10))))"

subsection \<open>Missing subtopics\<close>

definition missingSubtopicsRegexes :: "rx list" where
  "missingSubtopicsRegexes =
    [cat [Lit ''Missing subtopics'', Opt (Lit '':''), Star Space, Grp 1 (LazyStar Dot),
          Grp 2 (Alt (Lit [CHR 0x0A]) Eoi)],
     cat [Lit ''content should cover'', Opt (Lit '':''), Star Space, Grp 1 (LazyStar Dot),
          Grp 2 (Alt (Lit [CHR 0x0A]) Eoi)],
     cat [Lit ''topics to add'', Opt (Lit '':''), Star Space, Grp 1 (LazyStar Dot),
          Grp 2 (Alt (Lit [CHR 0x0A]) Eoi)],
     cat [Lit ''recommended subtopics'', Opt (Lit '':''), Star Space, Grp 1 (LazyStar Dot),
          Grp 2 (Alt (Lit [CHR 0x0A]) Eoi)],
     cat [Lit ''consider adding sections on'', Opt (Lit '':''), Star Space, Grp 1 (LazyStar Dot),
          Grp 2 (Alt (Lit [CHR 0x0A]) Eoi)],
     cat [Lit ''important subtopics missing'', Opt (Lit '':''), Star Space, Grp 1 (LazyStar Dot),
          Grp 2 (Alt (Lit [CHR 0x0A]) Eoi)]]"

text \<open>\<^verbatim>\<open>s.split(/,|;/)\<close>: the pieces between the separators, the empty ones kept.\<close>

fun split :: "(char \<Rightarrow> bool) \<Rightarrow> string \<Rightarrow> string list" where
  "split sep [] = [[]]"
| "split sep (c # cs) =
     (if sep c then [] # split sep cs
      else (case split sep cs of [] \<Rightarrow> [[c]] | p # ps \<Rightarrow> (c # p) # ps))"

definition subtopics_of :: "string \<Rightarrow> string list" where
  "subtopics_of g =
     filter (\<lambda>s. s \<noteq> ''None'' \<and> length s > 0)
       (map trim (split (\<lambda>c. c = CHR '','' \<or> c = CHR '';'') g))"

fun missingSubtopics_loop :: "rx list \<Rightarrow> string \<Rightarrow> string list" where
  "missingSubtopics_loop [] rawOutput = [''Topic research needed'']"
| "missingSubtopics_loop (regex # regexes) rawOutput =
     (case match rawOutput regex of
        None \<Rightarrow> missingSubtopics_loop regexes rawOutput
      | Some m \<Rightarrow>
          if truthy (grp m 1) then
            (let subtopics = subtopics_of (toString (grp m 1)) in
             if length subtopics > 0 then subtopics
             else missingSubtopics_loop regexes rawOutput)
          else missingSubtopics_loop regexes rawOutput)"

definition missingSubtopics_of :: "string \<Rightarrow> string list" where
  "missingSubtopics_of rawOutput = missingSubtopics_loop missingSubtopicsRegexes rawOutput"

subsection \<open>Recommendations\<close>

definition recommendationRegexes :: "rx list" where
  "recommendationRegexes =
    [cat [Lit ''recommendation'', Opt (Lit '':''), Star Space, Grp 1 (LazyStar Dot),
          Grp 2 (Alt (Lit [CHR 0x0A]) Eoi)],
     cat [Lit ''suggest'', Alt (Lit ''ion'') (Lit ''ed''), Opt (Lit '':''), Star Space,
          Grp 1 (LazyStar Dot), Grp 2 (Alt (Lit [CHR 0x0A]) Eoi)],
     cat [Lit ''improve'', Opt (Lit '':''), Star Space, Grp 1 (LazyStar Dot),
          Grp 2 (Alt (Lit [CHR 0x0A]) Eoi)],
     cat [Lit ''priorit'', Alt (Lit ''y'') (Lit ''ize''), Opt (Lit '':''), Star Space,
          Grp 1 (LazyStar Dot), Grp 2 (Alt (Lit [CHR 0x0A]) Eoi)],
     cat [Lit ''should'', Opt (Lit '':''), Star Space, Grp 1 (LazyStar Dot),
          Grp 2 (Alt (Lit [CHR 0x0A]) Eoi)],
     cat [Lit ''consider'', Opt (Lit '':''), Star Space, Grp 1 (LazyStar Dot),
          Grp 2 (Alt (Lit [CHR 0x0A]) Eoi)]]"

definition suggestion_category_of :: "string \<Rightarrow> string" where
  "suggestion_category_of fragment =
     (if test (any_of ''keyword'' [''densit'', ''placement'', ''h1'', ''title'']) fragment
        then ''Keyword Usage''
      else if test (any_of ''readab'' [''sentence'', ''paragraph'', ''complex'', ''jargon''])
                 fragment then ''Readability''
      else if test (any_of ''semantic'' [''topic'', ''subtopic'', ''coverage'', ''depth''])
                 fragment then ''Semantic Relevance''
      else if test (any_of ''structure'' [''format'', ''heading'', ''subhead'', ''layout''])
                 fragment then ''Content Structure''
      else if test (any_of ''meta'' [''description'', ''title tag'', ''schema'']) fragment
        then ''Meta Data''
      else ''Content Structure'')"

definition suggestion_priority_of :: "string \<Rightarrow> string" where
  "suggestion_priority_of fragment =
     (if test (any_of ''urgent'' [''critical'', ''important'', ''high'', ''essential'', ''must''])
           fragment then ''High''
      else if test (any_of ''consider'' [''might'', ''could'', ''option'', ''low'', ''minor''])
                 fragment then ''Low''
      else ''Medium'')"

definition recommendation_body ::
  "jsmatch \<Rightarrow> content_recommendation list \<Rightarrow> error + content_recommendation list" where
  "recommendation_body m directRecommendations =
     (case grp m 1 of
        None \<Rightarrow> Inl TypeError
      | Some g \<Rightarrow>
          (let fragment = trim g in
           if length fragment > 15 then
             Inr (directRecommendations @
               [\<lparr>rec_priority = suggestion_priority_of fragment,
                 rec_category = suggestion_category_of fragment,
                 suggestion = fragment\<rparr>])
           else Inr directRecommendations))"

definition avgSentenceLengthRegex :: rx where
  "avgSentenceLengthRegex =
     cat [Lit ''Average sentence length'', Opt (Lit '':''), Star Space, Grp 1 (Plus DigitOrDot)]"

definition avgParaLengthRegex :: rx where
  "avgParaLengthRegex =
     cat [Lit ''Average paragraph length'', Opt (Lit '':''), Star Space, Grp 1 (Plus DigitOrDot)]"

text \<open>\<^verbatim>\<open>m ? parseFloat(m[1]) : d\<close>\<close>

definition float_or :: "jsmatch option \<Rightarrow> jsnum \<Rightarrow> jsnum" where
  "float_or m d = (case m of None \<Rightarrow> d | Some m' \<Rightarrow> parseFloat (toString (grp m' 1)))"

text \<open>\<^verbatim>\<open>xs.join(" and ")\<close>\<close>

fun join_and :: "string list \<Rightarrow> string" where
  "join_and [] = []"
| "join_and [x] = x"
| "join_and (x # xs) = x @ '' and '' @ join_and xs"

definition fallbackRecommendations_of ::
  "string \<Rightarrow> bool \<Rightarrow> jsnum \<Rightarrow> string list \<Rightarrow> jsnum \<Rightarrow> content_recommendation list" where
  "fallbackRecommendations_of rawOutput keywordInH1 keywordDensity subtopics semantic =
     (let fallbackRecommendations = [];
          fallbackRecommendations =
            push_if (\<not> keywordInH1)
              \<lparr>rec_priority = ''High'', rec_category = ''Keyword Usage'',
                suggestion = ''Include target keyword in H1 heading''\<rparr>
              fallbackRecommendations;
          fallbackRecommendations =
            (if js_lt keywordDensity (Num (5 / 10)) then
               fallbackRecommendations @
                 [\<lparr>rec_priority = ''High'', rec_category = ''Keyword Usage'',
                   suggestion =
                     ''Increase keyword usage throughout the content to at least 0.5% density''\<rparr>]
             else if js_gt keywordDensity (Num 3) then
               fallbackRecommendations @
                 [\<lparr>rec_priority = ''Medium'', rec_category = ''Keyword Usage'',
                   suggestion = ''Reduce keyword density to 1-2% to avoid keyword stuffing''\<rparr>]
             else fallbackRecommendations);
          avgSentenceLength = float_or (match rawOutput avgSentenceLengthRegex) (Num 20);
          fallbackRecommendations =
            push_if (js_gt avgSentenceLength (Num 20))
              \<lparr>rec_priority = ''Medium'', rec_category = ''Readability'',
                suggestion =
                  ''Break long sentences into shorter ones for better readability (aim for 15-20 words per sentence)''\<rparr>
              fallbackRecommendations;
          avgParaLength = float_or (match rawOutput avgParaLengthRegex) (Num 100);
          fallbackRecommendations =
            push_if (js_gt avgParaLength (Num 70))
              \<lparr>rec_priority = ''Medium'', rec_category = ''Readability'',
                suggestion =
                  ''Break long paragraphs into shorter ones (3-4 sentences max) to improve readability''\<rparr>
              fallbackRecommendations;
          fallbackRecommendations =
            push_if (case subtopics of [] \<Rightarrow> False | t # ts \<Rightarrow> t \<noteq> ''None'')
              \<lparr>rec_priority = ''Medium'', rec_category = ''Semantic Relevance'',
                suggestion =
                  ''Add sections on '' @ join_and (take 2 subtopics)
                    @ '' to improve topical coverage and relevance''\<rparr>
              fallbackRecommendations
      in push_if (js_lt semantic (Num 60))
           \<lparr>rec_priority = ''High'', rec_category = ''Semantic Relevance'',
             suggestion =
               ''Expand content to cover more aspects of the topic for better search visibility''\<rparr>
           fallbackRecommendations)"

subsection \<open>Title and meta description\<close>

definition keywordRegexes :: "rx list" where
  "keywordRegexes =
    [cat [Lit ''for '', Lit [CHR 0x22], Grp 1 (LazyStar Dot), Lit [CHR 0x22]],
     cat [Lit ''keyword '', Lit [CHR 0x22], Grp 1 (LazyStar Dot), Lit [CHR 0x22]],
     cat [Lit ''analyzing '', Lit [CHR 0x22], Grp 1 (LazyStar Dot), Lit [CHR 0x22]],
     cat [Lit ''optimizing for '', Lit [CHR 0x22], Grp 1 (LazyStar Dot), Lit [CHR 0x22]]]"

definition keyword_of :: "string \<Rightarrow> string" where
  "keyword_of rawOutput =
     (case first_capture keywordRegexes rawOutput of
        None \<Rightarrow> ''your topic''
      | Some (regex, g) \<Rightarrow> g)"

text \<open>
  \<^verbatim>\<open>for (const regex of regexes) { const match = rawOutput.match(regex);
  if (match && match[1] && match[1].length > n) { v = match[1].trim(); break; } }\<close>
\<close>

fun first_long_capture :: "nat \<Rightarrow> rx list \<Rightarrow> string \<Rightarrow> string option" where
  "first_long_capture n [] rawOutput = None"
| "first_long_capture n (regex # regexes) rawOutput =
     (case match rawOutput regex of
        None \<Rightarrow> first_long_capture n regexes rawOutput
      | Some m \<Rightarrow>
          if truthy (grp m 1) \<and> length (toString (grp m 1)) > n
          then Some (trim (toString (grp m 1)))
          else first_long_capture n regexes rawOutput)"

definition titleRegexes :: "rx list" where
  "titleRegexes =
    [cat [Lit ''improved title'', Opt (Lit '':''), Star Space, Grp 1 (LazyStar Dot),
          Grp 2 (Alt (Lit [CHR 0x0A]) Eoi)],
     cat [Lit ''suggested title'', Opt (Lit '':''), Star Space, Grp 1 (LazyStar Dot),
          Grp 2 (Alt (Lit [CHR 0x0A]) Eoi)],
     cat [Lit ''recommended title'', Opt (Lit '':''), Star Space, Grp 1 (LazyStar Dot),
          Grp 2 (Alt (Lit [CHR 0x0A]) Eoi)],
     cat [Lit ''title tag'', Opt (Lit '':''), Star Space, Grp 1 (LazyStar Dot),
          Grp 2 (Alt (Lit [CHR 0x0A]) Eoi)],
     cat [Lit ''optimal title'', Opt (Lit '':''), Star Space, Grp 1 (LazyStar Dot),
          Grp 2 (Alt (Lit [CHR 0x0A]) Eoi)]]"

definition improvedTitle_of :: "string \<Rightarrow> string \<Rightarrow> string" where
  "improvedTitle_of rawOutput keyword =
     (case first_long_capture 10 titleRegexes rawOutput of
        None \<Rightarrow> capitalize keyword @ '': Complete Guide & Best Practices | YourBrand''
      | Some t \<Rightarrow> t)"

definition metaRegexes :: "rx list" where
  "metaRegexes =
    [cat [Lit ''improved meta description'', Opt (Lit '':''), Star Space, Grp 1 (LazyStar Dot),
          Grp 2 (Alt (Lit [CHR 0x0A]) Eoi)],
     cat [Lit ''suggested meta description'', Opt (Lit '':''), Star Space, Grp 1 (LazyStar Dot),
          Grp 2 (Alt (Lit [CHR 0x0A]) Eoi)],
     cat [Lit ''recommended meta'', Opt (Lit '':''), Star Space, Grp 1 (LazyStar Dot),
          Grp 2 (Alt (Lit [CHR 0x0A]) Eoi)],
     cat [Lit ''meta description'', Opt (Lit '':''), Star Space, Grp 1 (LazyStar Dot),
          Grp 2 (Alt (Lit [CHR 0x0A]) Eoi)],
     cat [Lit ''optimal meta'', Opt (Lit '':''), Star Space, Grp 1 (LazyStar Dot),
          Grp 2 (Alt (Lit [CHR 0x0A]) Eoi)]]"

definition improvedMetaDescription_of :: "string \<Rightarrow> string \<Rightarrow> string" where
  "improvedMetaDescription_of rawOutput keyword =
     (case first_long_capture 20 metaRegexes rawOutput of
        None \<Rightarrow>
          ''Learn everything about '' @ keyword
            @ '' in this comprehensive guide. Discover best practices, examples, and expert tips to maximize your results.''
      | Some d \<Rightarrow> d)"

subsection \<open>The function\<close>

definition formatContentResults :: "string \<Rightarrow> (error + ContentOptimizationResult) option" where
  "formatContentResults rawOutput =
     (let readability = readabilityScore_of rawOutput;
          keywordDensity = keywordDensity_of rawOutput;
          keywordInH1 = any_test h1InclusionRegexes rawOutput;
          keywordInIntro = any_test introInclusionRegexes rawOutput;
          keywordSc = keywordScore_of keywordDensity keywordInH1 keywordInIntro;
          semantic = semanticScore_of rawOutput;
          content = contentScore_of readability keywordSc semantic;
          subtopics = missingSubtopics_of rawOutput
      in case scan_for recommendation_body (\<lambda>xs. False) recommendationRegexes rawOutput [] of
           None \<Rightarrow> None
         | Some (Inl e) \<Rightarrow> Some (Inl e)
         | Some (Inr directRecommendations) \<Rightarrow>
             (let fallbackRecommendations =
                    fallbackRecommendations_of rawOutput keywordInH1 keywordDensity subtopics
                      semantic;
                  recs = (if length directRecommendations \<ge> 3 then directRecommendations
                          else directRecommendations @ fallbackRecommendations);
                  keyword = keyword_of rawOutput
              in Some (Inr
                   \<lparr>contentScore = content,
                     readabilityScore = readability,
                     keywordScore = keywordSc,
                     semanticScore = semantic,
                     recommendations = take 5 recs,
                     missingSubtopics = subtopics,
                     improvedTitle = Some (improvedTitle_of rawOutput keyword),
                     improvedMetaDescription =
                       Some (improvedMetaDescription_of rawOutput keyword)\<rparr>)))"

section \<open>Analysis of the patterns\<close>

text \<open>
  What can be read off a pattern: the least number of characters a match of it
  consumes, the groups it mentions, the groups every match of it sets, the groups
  every match of it sets to a string that is not empty, and the groups every match of
  it sets to a string of characters of one class.
\<close>

fun min_len :: "rx \<Rightarrow> nat" where
  "min_len (Lit l) = length l"
| "min_len (Cls c) = 1"
| "min_len (Seq a b) = min_len a + min_len b"
| "min_len (Alt a b) = min (min_len a) (min_len b)"
| "min_len (Opt a) = 0"
| "min_len (Star c) = 0"
| "min_len (Plus c) = 1"
| "min_len (LazyStar c) = 0"
| "min_len (Grp n a) = min_len a"
| "min_len Eoi = 0"

fun mentions :: "nat \<Rightarrow> rx \<Rightarrow> bool" where
  "mentions n (Seq a b) = (mentions n a \<or> mentions n b)"
| "mentions n (Alt a b) = (mentions n a \<or> mentions n b)"
| "mentions n (Opt a) = mentions n a"
| "mentions n (Grp m a) = (m = n \<or> mentions n a)"
| "mentions n _ = False"

fun binds :: "nat \<Rightarrow> rx \<Rightarrow> bool" where
  "binds n (Seq a b) = (binds n a \<or> binds n b)"
| "binds n (Alt a b) = (binds n a \<and> binds n b)"
| "binds n (Grp m a) = (m = n \<or> binds n a)"
| "binds n _ = False"

fun binds_nonempty :: "nat \<Rightarrow> rx \<Rightarrow> bool" where
  "binds_nonempty n (Seq a b) = ((binds_nonempty n a \<and> \<not> mentions n b) \<or> binds_nonempty n b)"
| "binds_nonempty n (Alt a b) = (binds_nonempty n a \<and> binds_nonempty n b)"
| "binds_nonempty n (Grp m a) = (if m = n then 0 < min_len a else binds_nonempty n a)"
| "binds_nonempty n _ = False"

fun of_class :: "cclass \<Rightarrow> rx \<Rightarrow> bool" where
  "of_class c (Cls d) = (c = d)"
| "of_class c (Star d) = (c = d)"
| "of_class c (Plus d) = (c = d)"
| "of_class c (LazyStar d) = (c = d)"
| "of_class c _ = False"

fun binds_class :: "nat \<Rightarrow> cclass \<Rightarrow> rx \<Rightarrow> bool" where
  "binds_class n c (Seq a b) = ((binds_class n c a \<and> \<not> mentions n b) \<or> binds_class n c b)"
| "binds_class n c (Alt a b) = (binds_class n c a \<and> binds_class n c b)"
| "binds_class n c (Grp m a) = (if m = n then of_class c a else binds_class n c a)"
| "binds_class n c _ = False"

text \<open>
  What a successful match of \<open>r\<close> on \<open>s\<close> with captures \<open>g\<close> guarantees about
  the rest \<open>s'\<close> of the input and the captures \<open>g'\<close> it hands on.
\<close>

definition post :: "rx \<Rightarrow> string \<Rightarrow> groups \<Rightarrow> string \<Rightarrow> groups \<Rightarrow> bool" where
  "post r s g s' g' =
     ((\<exists>u. s = u @ s' \<and> min_len r \<le> length u
           \<and> (\<forall>c. of_class c r \<longrightarrow> (\<forall>x \<in> set u. in_cls c x)))
      \<and> (\<forall>n. g n \<noteq> None \<longrightarrow> g' n \<noteq> None)
      \<and> (\<forall>n. binds n r \<longrightarrow> g' n \<noteq> None)
      \<and> (\<forall>n. \<not> mentions n r \<longrightarrow> g' n = g n)
      \<and> (\<forall>n. binds_nonempty n r \<longrightarrow> (\<exists>v. g' n = Some v \<and> v \<noteq> []))
      \<and> (\<forall>n c. binds_class n c r \<longrightarrow> (\<exists>v. g' n = Some v \<and> (\<forall>x \<in> set v. in_cls c x))))"

text \<open>The end of a line: \<^verbatim>\<open>(\n|$)\<close> as the second group, after the first group \<open>c\<close>.\<close>

definition line_end :: "groups \<Rightarrow> string \<Rightarrow> string \<Rightarrow> (string \<times> groups) option" where
  "line_end g c s =
     (case s of
        [] \<Rightarrow> Some ([], g(1 \<mapsto> c, 2 \<mapsto> []))
      | x # xs \<Rightarrow> if x = CHR 0x0A then Some (xs, g(1 \<mapsto> c, 2 \<mapsto> [CHR 0x0A])) else None)"

definition not_terminator :: "char \<Rightarrow> bool" where
  "not_terminator c = (\<not> is_line_terminator c)"

text \<open>The shape \<^verbatim>\<open>label:?\s*(.*?)(\n|$)\<close>.\<close>

definition labelled_line :: "string \<Rightarrow> rx" where
  "labelled_line l =
     cat [Lit l, Opt (Lit '':''), Star Space, Grp 1 (LazyStar Dot),
          Grp 2 (Alt (Lit [CHR 0x0A]) Eoi)]"

section \<open>The signal scorer of the specification\<close>

text \<open>
  The signal scorer in the words of the specification: a table of signals, each a
  detector that has matched or not and a delta; the total is the baseline plus the
  deltas of the signals that matched; the score is the total, clamped once.
\<close>

definition signal_total :: "jsnum \<Rightarrow> (bool \<times> jsnum) list \<Rightarrow> jsnum" where
  "signal_total baseline table = foldl js_add baseline (map snd (filter fst table))"

definition clamp_score :: "jsnum \<Rightarrow> jsnum" where
  "clamp_score x = Math_max (Num 0) (Math_min (Num 100) x)"

text \<open>The two tables of the structure score as one, evaluated on a text.\<close>

definition structure_table :: "string \<Rightarrow> (bool \<times> jsnum) list" where
  "structure_table rawOutput =
     map (\<lambda>sig. (test (pattern sig) rawOutput, points sig))
       (structureSignals @ negativeStructureSignals)"

text \<open>The adjustments of the keyword score as a table of six independent signals.\<close>

definition keyword_table :: "jsnum \<Rightarrow> bool \<Rightarrow> bool \<Rightarrow> (bool \<times> jsnum) list" where
  "keyword_table keywordDensity keywordInH1 keywordInIntro =
     [(js_ge keywordDensity (Num (5 / 10)) \<and> js_le keywordDensity (Num (25 / 10)), Num 20),
      (js_gt keywordDensity (Num (25 / 10)) \<and> js_le keywordDensity (Num (35 / 10)), Num 10),
      (js_gt keywordDensity (Num (35 / 10)), Num (- 10)),
      (js_lt keywordDensity (Num (5 / 10)), Num (- 15)),
      (keywordInH1, Num 10),
      (keywordInIntro, Num 10)]"

text \<open>The phrases the schema score looks for with \<^verbatim>\<open>includes\<close>.\<close>

definition schemaPhrases :: "string list" where
  "schemaPhrases =
    [''Likely eligible'', ''Partially eligible'', ''Schema types detected'', ''None detected'',
     ''Schema types detected: None detected'', ''No schema detected'', ''JSON-LD instances:'',
     ''JSON-LD instances: 0'', ''Within <head> tag (recommended)'',
     ''Missing recommended properties'']"

section \<open>The matcher: what a match guarantees\<close>

lemma lit_m_split: "lit_m l s = Some s' \<Longrightarrow> \<exists>u. s = u @ s' \<and> length u = length l"
proof (induction l s rule: lit_m.induct)
  case (3 c cs x xs)
  then obtain u where "xs = u @ s'" "length u = length cs"
    by (auto split: if_splits)
  then show ?case by (intro exI[of _ "x # u"]) simp
qed auto

lemma star_m_split:
  "star_m p s k = Some res \<Longrightarrow> \<exists>u s'. s = u @ s' \<and> (\<forall>x \<in> set u. p x) \<and> k s' = Some res"
proof (induction s)
  case Nil
  then show ?case by auto
next
  case (Cons x xs)
  show ?case
  proof (cases "p x \<and> star_m p xs k \<noteq> None")
    case True
    with Cons.prems have "star_m p xs k = Some res" by (auto split: option.splits)
    from Cons.IH[OF this] obtain u s'
      where "xs = u @ s'" "\<forall>x \<in> set u. p x" "k s' = Some res" by blast
    with True show ?thesis by (intro exI[of _ "x # u"] exI[of _ s']) simp
  next
    case False
    with Cons.prems have "k (x # xs) = Some res" by (auto split: option.splits if_splits)
    then show ?thesis by (intro exI[of _ "[]"] exI[of _ "x # xs"]) simp
  qed
qed

lemma lazy_m_split:
  "lazy_m p s k = Some res \<Longrightarrow> \<exists>u s'. s = u @ s' \<and> (\<forall>x \<in> set u. p x) \<and> k s' = Some res"
proof (induction s)
  case Nil
  then show ?case by auto
next
  case (Cons x xs)
  show ?case
  proof (cases "k (x # xs)")
    case (Some r)
    with Cons.prems have "k (x # xs) = Some res" by simp
    then show ?thesis by (intro exI[of _ "[]"] exI[of _ "x # xs"]) simp
  next
    case None
    with Cons.prems have l: "p x" "lazy_m p xs k = Some res" by (auto split: if_splits)
    from Cons.IH[OF l(2)] obtain u s'
      where "xs = u @ s'" "\<forall>x \<in> set u. p x" "k s' = Some res" by blast
    with l(1) show ?thesis by (intro exI[of _ "x # u"] exI[of _ s']) simp
  qed
qed

lemma post_parts:
  assumes "post r s g s' g'"
  shows "\<exists>u. s = u @ s' \<and> min_len r \<le> length u
           \<and> (\<forall>c. of_class c r \<longrightarrow> (\<forall>x \<in> set u. in_cls c x))"
    and "\<forall>n. g n \<noteq> None \<longrightarrow> g' n \<noteq> None"
    and "\<forall>n. binds n r \<longrightarrow> g' n \<noteq> None"
    and "\<forall>n. \<not> mentions n r \<longrightarrow> g' n = g n"
    and "\<forall>n. binds_nonempty n r \<longrightarrow> (\<exists>v. g' n = Some v \<and> v \<noteq> [])"
    and "\<forall>n c. binds_class n c r \<longrightarrow> (\<exists>v. g' n = Some v \<and> (\<forall>x \<in> set v. in_cls c x))"
  using assms unfolding post_def by simp_all

lemma post_trans:
  assumes "post a s g s1 g1" "post b s1 g1 s' g'"
  shows "post (Seq a b) s g s' g'"
proof -
  note pa = post_parts[OF assms(1)] and pb = post_parts[OF assms(2)]
  from pa(1) pb(1) obtain u v where u: "s = u @ s1" "min_len a \<le> length u"
    and v: "s1 = v @ s'" "min_len b \<le> length v"
    by blast
  have "s = (u @ v) @ s' \<and> min_len (Seq a b) \<le> length (u @ v)
        \<and> (\<forall>c. of_class c (Seq a b) \<longrightarrow> (\<forall>x \<in> set (u @ v). in_cls c x))"
    using u v by simp
  then have 1: "\<exists>w. s = w @ s' \<and> min_len (Seq a b) \<le> length w
        \<and> (\<forall>c. of_class c (Seq a b) \<longrightarrow> (\<forall>x \<in> set w. in_cls c x))" by blast
  have 2: "\<forall>n. g n \<noteq> None \<longrightarrow> g' n \<noteq> None"
    using pa(2) pb(2) by blast
  have 3: "\<forall>n. binds n (Seq a b) \<longrightarrow> g' n \<noteq> None"
    using pa(3) pb(2,3) by (metis binds.simps(1))
  have 4: "\<forall>n. \<not> mentions n (Seq a b) \<longrightarrow> g' n = g n"
    using pa(4) pb(4) by simp
  have 5: "\<forall>n. binds_nonempty n (Seq a b) \<longrightarrow> (\<exists>v. g' n = Some v \<and> v \<noteq> [])"
    using pa(5) pb(4,5) by (metis binds_nonempty.simps(1))
  have 6: "\<forall>n c. binds_class n c (Seq a b) \<longrightarrow> (\<exists>v. g' n = Some v \<and> (\<forall>x \<in> set v. in_cls c x))"
    using pa(6) pb(4,6) by (metis binds_class.simps(1))
  from 1 2 3 4 5 6 show ?thesis unfolding post_def by blast
qed

lemma rx_m_post:
  "rx_m r s g k = Some res \<Longrightarrow> \<exists>s' g'. k s' g' = Some res \<and> post r s g s' g'"
proof (induction r arbitrary: s g k res)
  case (Lit l)
  then obtain s' where "lit_m l s = Some s'" "k s' g = Some res"
    by (auto split: option.splits)
  with lit_m_split[of l s s'] show ?case
    by (intro exI[of _ s'] exI[of _ g]) (auto simp: post_def)
next
  case (Cls c)
  then obtain x xs where x: "s = x # xs" "in_cls c x" "k xs g = Some res"
    by (auto split: list.splits if_splits)
  have "s = [x] @ xs \<and> min_len (Cls c) \<le> length [x]
        \<and> (\<forall>d. of_class d (Cls c) \<longrightarrow> (\<forall>y \<in> set [x]. in_cls d y))"
    using x by simp
  then have "\<exists>w. s = w @ xs \<and> min_len (Cls c) \<le> length w
        \<and> (\<forall>d. of_class d (Cls c) \<longrightarrow> (\<forall>y \<in> set w. in_cls d y))" by blast
  then have "post (Cls c) s g xs g" by (simp add: post_def)
  with x(3) show ?case by blast
next
  case (Seq a b)
  from Seq.prems have "rx_m a s g (\<lambda>s' g'. rx_m b s' g' k) = Some res" by simp
  from Seq.IH(1)[OF this] obtain s1 g1
    where 1: "rx_m b s1 g1 k = Some res" "post a s g s1 g1" by blast
  from Seq.IH(2)[OF 1(1)] obtain s' g'
    where 2: "k s' g' = Some res" "post b s1 g1 s' g'" by blast
  from post_trans[OF 1(2) 2(2)] 2(1) show ?case by blast
next
  case (Alt a b)
  show ?case
  proof (cases "rx_m a s g k")
    case None
    with Alt.prems have "rx_m b s g k = Some res" by simp
    from Alt.IH(2)[OF this] obtain s' g' where "k s' g' = Some res" "post b s g s' g'" by blast
    then show ?thesis
      by (intro exI[of _ s'] exI[of _ g']) (auto simp: post_def)
  next
    case (Some r)
    with Alt.prems have "rx_m a s g k = Some res" by simp
    from Alt.IH(1)[OF this] obtain s' g' where "k s' g' = Some res" "post a s g s' g'" by blast
    then show ?thesis
      by (intro exI[of _ s'] exI[of _ g']) (auto simp: post_def)
  qed
next
  case (Opt a)
  show ?case
  proof (cases "rx_m a s g k")
    case None
    with Opt.prems have "k s g = Some res" by simp
    then show ?thesis
      by (intro exI[of _ s] exI[of _ g]) (auto simp: post_def)
  next
    case (Some r)
    with Opt.prems have "rx_m a s g k = Some res" by simp
    from Opt.IH[OF this] obtain s' g' where "k s' g' = Some res" "post a s g s' g'" by blast
    then show ?thesis
      by (intro exI[of _ s'] exI[of _ g']) (auto simp: post_def)
  qed
next
  case (Star c)
  then have "star_m (in_cls c) s (\<lambda>s'. k s' g) = Some res" by simp
  from star_m_split[OF this] obtain u s'
    where "s = u @ s'" "\<forall>x \<in> set u. in_cls c x" "k s' g = Some res" by blast
  then show ?case
    by (intro exI[of _ s'] exI[of _ g]) (auto simp: post_def)
next
  case (Plus c)
  then obtain x xs where x: "s = x # xs" "star_m (in_cls c) xs (\<lambda>s'. k s' g) = Some res"
    by (auto split: list.splits if_splits)
  from Plus.prems x(1) have cx: "in_cls c x" by (auto split: if_splits)
  from star_m_split[OF x(2)] obtain u s'
    where u: "xs = u @ s'" "\<forall>x \<in> set u. in_cls c x" "k s' g = Some res" by blast
  have "s = (x # u) @ s' \<and> min_len (Plus c) \<le> length (x # u)
        \<and> (\<forall>d. of_class d (Plus c) \<longrightarrow> (\<forall>y \<in> set (x # u). in_cls d y))"
    using x(1) u cx by simp
  then have "\<exists>w. s = w @ s' \<and> min_len (Plus c) \<le> length w
        \<and> (\<forall>d. of_class d (Plus c) \<longrightarrow> (\<forall>y \<in> set w. in_cls d y))" by blast
  then have "post (Plus c) s g s' g" by (simp add: post_def)
  with u(3) show ?case by blast
next
  case (LazyStar c)
  then have "lazy_m (in_cls c) s (\<lambda>s'. k s' g) = Some res" by simp
  from lazy_m_split[OF this] obtain u s'
    where "s = u @ s'" "\<forall>x \<in> set u. in_cls c x" "k s' g = Some res" by blast
  then show ?case
    by (intro exI[of _ s'] exI[of _ g]) (auto simp: post_def)
next
  case (Grp n a)
  from Grp.prems
  have "rx_m a s g (\<lambda>s' g'. k s' (g'(n \<mapsto> take (length s - length s') s))) = Some res"
    by simp
  from Grp.IH[OF this] obtain s' g1
    where 1: "k s' (g1(n \<mapsto> take (length s - length s') s)) = Some res" "post a s g s' g1"
    by blast
  from 1(2) obtain u where u: "s = u @ s'" "min_len a \<le> length u"
      "\<forall>c. of_class c a \<longrightarrow> (\<forall>x \<in> set u. in_cls c x)"
    unfolding post_def by blast
  then have t: "take (length s - length s') s = u" by simp
  have "post (Grp n a) s g s' (g1(n \<mapsto> u))"
    using 1(2) u unfolding post_def by auto
  with 1(1) t show ?case by auto
next
  case Eoi
  then have "s = []" "k s g = Some res" by (auto split: if_splits)
  then show ?case
    by (intro exI[of _ s] exI[of _ g]) (auto simp: post_def)
qed

lemma rx_search_post:
  "rx_search r s i = Some m \<Longrightarrow>
   \<exists>j s' g'. j \<le> length s \<and> rx_at r (drop j s) = Some (s', g') \<and> index m = i + j
     \<and> full m = take (length (drop j s) - length s') (drop j s) \<and> grp m = g'"
proof (induction s arbitrary: i)
  case Nil
  then show ?case by (auto split: option.splits)
next
  case (Cons x xs)
  show ?case
  proof (cases "rx_at r (x # xs)")
    case None
    with Cons.prems have "rx_search r xs (Suc i) = Some m" by simp
    from Cons.IH[OF this] obtain j s' g' where
      "j \<le> length xs" "rx_at r (drop j xs) = Some (s', g')" "index m = Suc i + j"
      "full m = take (length (drop j xs) - length s') (drop j xs)" "grp m = g'"
      by blast
    then show ?thesis
      by (intro exI[of _ "Suc j"] exI[of _ s'] exI[of _ g']) simp
  next
    case (Some a)
    obtain s' g' where a: "a = (s', g')" by (cases a)
    with Some Cons.prems show ?thesis
      by (intro exI[of _ 0] exI[of _ s'] exI[of _ g']) auto
  qed
qed

lemma match_post:
  assumes "match s r = Some m"
  shows "index m + length (full m) \<le> length s"
    and "min_len r \<le> length (full m)"
    and "binds n r \<Longrightarrow> grp m n \<noteq> None"
    and "binds_nonempty n r \<Longrightarrow> truthy (grp m n)"
    and "binds_class n c r \<Longrightarrow> \<forall>x \<in> set (toString (grp m n)). in_cls c x"
proof -
  from assms rx_search_post[of r s 0 m] obtain j s' g' where
    j: "j \<le> length s" and at: "rx_at r (drop j s) = Some (s', g')" and i: "index m = j"
    and f: "full m = take (length (drop j s) - length s') (drop j s)" and g: "grp m = g'"
    unfolding match_def by auto
  from at have "rx_m r (drop j s) Map.empty (\<lambda>s' g. Some (s', g)) = Some (s', g')"
    by (simp add: rx_at_def)
  from rx_m_post[OF this] have p: "post r (drop j s) Map.empty s' g'" by auto
  then obtain u where u: "drop j s = u @ s'" "min_len r \<le> length u"
    unfolding post_def by blast
  from u f have fu: "full m = u" by simp
  have "length (drop j s) = length u + length s'" using u by simp
  then have "length u \<le> length s - j" by simp
  with j i fu show "index m + length (full m) \<le> length s" by simp
  from u fu show "min_len r \<le> length (full m)" by simp
  show "binds n r \<Longrightarrow> grp m n \<noteq> None" using p g unfolding post_def by blast
  show "binds_nonempty n r \<Longrightarrow> truthy (grp m n)"
    using p g unfolding post_def truthy_def by (auto split: option.splits)
  show "binds_class n c r \<Longrightarrow> \<forall>x \<in> set (toString (grp m n)). in_cls c x"
  proof -
    assume "binds_class n c r"
    with p g obtain v where "grp m n = Some v" "\<forall>x \<in> set v. in_cls c x"
      unfolding post_def by blast
    then show ?thesis by (simp add: toString_def)
  qed
qed

section \<open>The scanning loops end and throw nothing\<close>

lemma scan_while_total:
  assumes len: "0 < min_len regex" and b: "binds 1 regex"
    and body: "\<And>m acc. grp m 1 \<noteq> None \<Longrightarrow> \<exists>acc'. body m acc = Inr acc'"
  shows "\<exists>acc'. scan_while body stop regex raw startPos acc = Some (Inr acc')"
proof (induction "length raw - startPos" arbitrary: startPos acc rule: less_induct)
  case less
  show ?case
  proof (cases "match (drop startPos raw) regex")
    case None
    then show ?thesis by (subst scan_while.simps) simp
  next
    case (Some m)
    from match_post(1,2)[OF Some] len
    have adv: "0 < index m + length (full m)" "index m + length (full m) \<le> length raw - startPos"
      by auto
    from match_post(3)[OF Some b] body obtain acc' where acc': "body m acc = Inr acc'"
      by blast
    show ?thesis
    proof (cases "stop acc'")
      case True
      with Some acc' show ?thesis by (subst scan_while.simps) simp
    next
      case False
      from adv have "length raw - (startPos + index m + length (full m)) < length raw - startPos"
        by arith
      from less[OF this, of acc'] obtain acc'' where
        "scan_while body stop regex raw (startPos + index m + length (full m)) acc'
           = Some (Inr acc'')" by blast
      with Some acc' False show ?thesis by (subst scan_while.simps) simp
    qed
  qed
qed

lemma scan_for_total:
  assumes "\<forall>regex \<in> set regexes. 0 < min_len regex \<and> binds 1 regex"
    and body: "\<And>m acc. grp m 1 \<noteq> None \<Longrightarrow> \<exists>acc'. body m acc = Inr acc'"
  shows "\<exists>acc'. scan_for body stop regexes raw acc = Some (Inr acc')"
  using assms(1)
proof (induction regexes arbitrary: acc)
  case Nil
  show ?case by simp
next
  case (Cons regex regexes)
  then have "0 < min_len regex" "binds 1 regex" by auto
  from scan_while_total[where body = body and stop = stop and raw = raw and startPos = 0
      and acc = acc, OF this body] obtain acc'
    where w: "scan_while body stop regex raw 0 acc = Some (Inr acc')" by blast
  from Cons have "\<forall>regex \<in> set regexes. 0 < min_len regex \<and> binds 1 regex" by simp
  from Cons.IH[OF this, of acc'] w show ?case by auto
qed

lemma issue_body_total: "grp m 1 \<noteq> None \<Longrightarrow> \<exists>acc'. issue_body m acc = Inr acc'"
  by (auto simp: issue_body_def Let_def)

lemma improvement_body_total: "grp m 1 \<noteq> None \<Longrightarrow> \<exists>acc'. improvement_body m acc = Inr acc'"
  by (auto simp: improvement_body_def Let_def)

lemma recommendation_body_total:
  "grp m 1 \<noteq> None \<Longrightarrow> \<exists>acc'. recommendation_body m acc = Inr acc'"
  by (auto simp: recommendation_body_def Let_def)

lemma issueRegexes_ok: "\<forall>regex \<in> set issueRegexes. 0 < min_len regex \<and> binds 1 regex"
  by (simp add: issueRegexes_def)

lemma improvementRegexes_ok: "\<forall>regex \<in> set improvementRegexes. 0 < min_len regex \<and> binds 1 regex"
  by (simp add: improvementRegexes_def)

lemma recommendationRegexes_ok:
  "\<forall>regex \<in> set recommendationRegexes. 0 < min_len regex \<and> binds 1 regex"
  by (simp add: recommendationRegexes_def)

section \<open>Captured lines start with a visible character\<close>

lemma toUpperCase_char_cases: "toUpperCase_char x = x \<or> toUpperCase_char x \<in> set upper_letters"
proof (cases "map_of (zip lower_letters upper_letters) x")
  case None
  then show ?thesis by (simp add: toUpperCase_char_def)
next
  case (Some u)
  then have "(x, u) \<in> set (zip lower_letters upper_letters)" by (rule map_of_SomeD)
  then have "u \<in> set upper_letters" by (rule set_zip_rightD)
  with Some show ?thesis by (simp add: toUpperCase_char_def)
qed

lemma toUpperCase_char_newline [simp]: "toUpperCase_char (CHR 0x0A) = CHR 0x0A"
  by (simp add: toUpperCase_char_def lower_letters_def upper_letters_def)

lemma toUpperCase_char_eq_newline [simp]:
  "(CHR 0x0A = toUpperCase_char x) = (x = CHR 0x0A)"
proof
  assume a: "CHR 0x0A = toUpperCase_char x"
  from toUpperCase_char_cases[of x] show "x = CHR 0x0A"
  proof
    assume "toUpperCase_char x = x" with a show ?thesis by simp
  next
    assume "toUpperCase_char x \<in> set upper_letters"
    with a have "CHR 0x0A \<in> set upper_letters" by simp
    then show ?thesis by (simp add: upper_letters_def)
  qed
qed simp

lemma line_end_eq:
  "rx_m (Grp 2 (Alt (Lit [CHR 0x0A]) Eoi)) s (g(1 \<mapsto> c)) (\<lambda>s' g'. Some (s', g')) = line_end g c s"
  by (cases s) (auto simp: line_end_def)

lemma newline_terminator [simp]: "\<not> not_terminator (CHR 0x0A)"
  by (simp add: not_terminator_def is_line_terminator_def)

lemma in_cls_Dot: "in_cls Dot = not_terminator"
  by (auto simp: not_terminator_def)

lemma in_cls_Space: "in_cls Space = is_space"
  by auto

lemma lazy_line:
  "lazy_m not_terminator s (\<lambda>s1. line_end g (take (length (pre @ s) - length s1) (pre @ s)) s1)
   = line_end g (pre @ takeWhile not_terminator s) (dropWhile not_terminator s)"
proof (induction s arbitrary: pre)
  case Nil
  show ?case by simp
next
  case (Cons x xs)
  show ?case
  proof (cases "x = CHR 0x0A")
    case True
    then show ?thesis by (simp add: line_end_def)
  next
    case False
    show ?thesis
    proof (cases "not_terminator x")
      case True
      from Cons.IH[of "pre @ [x]"] True False show ?thesis
        by (simp add: line_end_def)
    next
      case nt: False
      with False show ?thesis by (simp add: line_end_def)
    qed
  qed
qed

lemma group1_lazy_unfold:
  "rx_m (Seq (Grp 1 (LazyStar Dot)) b) s g k
   = lazy_m not_terminator s (\<lambda>s1. rx_m b s1 (g(1 \<mapsto> take (length s - length s1) s)) k)"
  by (simp add: in_cls_Dot)

lemma line_tail_eq:
  "rx_m (Seq (Grp 1 (LazyStar Dot)) (Grp 2 (Alt (Lit [CHR 0x0A]) Eoi))) s g (\<lambda>s' g'. Some (s', g'))
   = line_end g (takeWhile not_terminator s) (dropWhile not_terminator s)"
  using lazy_line[of s g "[]"]
  by (simp only: group1_lazy_unfold line_end_eq append_Nil)

lemma star_m_None: "star_m p s k = None \<Longrightarrow> k s = None"
  by (cases s) (auto split: if_splits option.splits)

lemma star_m_longest:
  "star_m p s k = Some res \<Longrightarrow>
   \<exists>s'. k s' = Some res \<and> (\<forall>x xs. s' = x # xs \<and> p x \<longrightarrow> k xs = None)"
proof (induction s)
  case Nil
  then show ?case by auto
next
  case (Cons x xs)
  show ?case
  proof (cases "p x \<and> star_m p xs k \<noteq> None")
    case True
    with Cons.prems have "star_m p xs k = Some res" by (auto split: option.splits)
    from Cons.IH[OF this] show ?thesis .
  next
    case False
    with Cons.prems have k: "k (x # xs) = Some res" by (auto split: option.splits if_splits)
    from False have "p x \<longrightarrow> k xs = None" using star_m_None[of p xs k] by auto
    with k show ?thesis by (intro exI[of _ "x # xs"]) auto
  qed
qed

lemma label_unfold:
  "rx_m (Seq (Lit l) (Seq (Opt (Lit c)) (Seq (Star Space) t))) s g k = Some res \<Longrightarrow>
   \<exists>s2. star_m is_space s2 (\<lambda>s'. rx_m t s' g k) = Some res"
  by (auto simp: in_cls_Space split: option.splits)

lemma labelled_line_at:
  assumes "rx_at (labelled_line l) s = Some (s', g')"
  shows "\<exists>c. g' 1 = Some c \<and> (c = [] \<or> \<not> is_space (hd c))"
proof -
  let ?T = "Seq (Grp 1 (LazyStar Dot)) (Grp 2 (Alt (Lit [CHR 0x0A]) Eoi))"
  let ?kT = "\<lambda>s'. rx_m ?T s' Map.empty (\<lambda>s' g'. Some (s', g'))"
  have "labelled_line l = Seq (Lit l) (Seq (Opt (Lit '':'')) (Seq (Star Space) ?T))"
    by (simp add: labelled_line_def)
  with assms
  have "rx_m (Seq (Lit l) (Seq (Opt (Lit '':'')) (Seq (Star Space) ?T))) s Map.empty
          (\<lambda>s' g'. Some (s', g')) = Some (s', g')"
    by (simp only: rx_at_def)
  from label_unfold[OF this] obtain s2 where "star_m is_space s2 ?kT = Some (s', g')"
    by blast
  from star_m_longest[OF this] obtain s3
    where k: "?kT s3 = Some (s', g')"
      and mx: "\<forall>x xs. s3 = x # xs \<and> is_space x \<longrightarrow> ?kT xs = None"
    by blast
  from k have le: "line_end Map.empty (takeWhile not_terminator s3) (dropWhile not_terminator s3)
                = Some (s', g')"
    by (simp only: line_tail_eq)
  then have g1: "g' 1 = Some (takeWhile not_terminator s3)"
    by (auto simp: line_end_def split: list.splits if_splits)
  show ?thesis
  proof (cases "takeWhile not_terminator s3")
    case Nil
    with g1 show ?thesis by simp
  next
    case (Cons c cs)
    then obtain xs where s3: "s3 = c # xs" and nt: "not_terminator c"
      by (cases s3) (auto split: if_splits)
    have "\<not> is_space c"
    proof
      assume "is_space c"
      with mx s3 have "?kT xs = None" by blast
      then have "line_end Map.empty (takeWhile not_terminator xs) (dropWhile not_terminator xs) = None"
        by (simp only: line_tail_eq)
      moreover from le s3 nt
      have "line_end Map.empty (c # takeWhile not_terminator xs) (dropWhile not_terminator xs)
              = Some (s', g')" by simp
      ultimately show False by (auto simp: line_end_def split: list.splits if_splits)
    qed
    with g1 Cons show ?thesis by simp
  qed
qed

lemma labelled_line_match:
  assumes "match raw (labelled_line l) = Some m"
  shows "\<exists>c. grp m 1 = Some c \<and> (c = [] \<or> \<not> is_space (hd c))"
proof -
  from assms rx_search_post[of "labelled_line l" raw 0 m] obtain j s' g' where
    "rx_at (labelled_line l) (drop j raw) = Some (s', g')" "grp m = g'"
    unfolding match_def by auto
  with labelled_line_at[of l "drop j raw" s' g'] show ?thesis by simp
qed

lemma trim_nonempty: "c \<noteq> [] \<Longrightarrow> \<not> is_space (hd c) \<Longrightarrow> trim c \<noteq> []"
proof -
  assume a: "c \<noteq> []" "\<not> is_space (hd c)"
  then have "dropWhile is_space c = c" by (cases c) auto
  moreover have "dropWhile is_space (rev c) \<noteq> []"
    using a by (cases c) (auto simp: dropWhile_eq_Nil_conv)
  ultimately show ?thesis by (simp add: trim_def)
qed

lemma first_long_capture_nonempty:
  assumes "\<forall>regex \<in> set regexes. \<exists>l. regex = labelled_line l"
    and "first_long_capture n regexes raw = Some t"
  shows "t \<noteq> []"
  using assms
proof (induction regexes)
  case Nil
  then show ?case by simp
next
  case (Cons regex regexes)
  then obtain l where l: "regex = labelled_line l" by auto
  show ?case
  proof (cases "match raw regex")
    case None
    with Cons show ?thesis by simp
  next
    case (Some m)
    show ?thesis
    proof (cases "truthy (grp m 1) \<and> length (toString (grp m 1)) > n")
      case True
      with Some Cons.prems have t: "t = trim (toString (grp m 1))" by simp
      from labelled_line_match[of raw l m] Some l obtain c
        where "grp m 1 = Some c" "c = [] \<or> \<not> is_space (hd c)" by auto
      with True t show ?thesis by (auto simp: truthy_def toString_def trim_nonempty)
    next
      case False
      with Some Cons show ?thesis by auto
    qed
  qed
qed

lemma titleRegexes_shape: "\<forall>regex \<in> set titleRegexes. \<exists>l. regex = labelled_line l"
  by (simp add: titleRegexes_def labelled_line_def)

lemma metaRegexes_shape: "\<forall>regex \<in> set metaRegexes. \<exists>l. regex = labelled_line l"
  by (simp add: metaRegexes_def labelled_line_def)

lemma improvedTitle_of_nonempty: "improvedTitle_of raw keyword \<noteq> []"
  using first_long_capture_nonempty[OF titleRegexes_shape, of 10 raw]
  by (auto simp: improvedTitle_of_def split: option.splits)

lemma improvedMetaDescription_of_nonempty: "improvedMetaDescription_of raw keyword \<noteq> []"
  using first_long_capture_nonempty[OF metaRegexes_shape, of 20 raw]
  by (auto simp: improvedMetaDescription_of_def split: option.splits)

section \<open>Signal scores\<close>

lemma js_add_swap: "js_add (js_add a x) y = js_add (js_add a y) x"
  by (cases a; cases x; cases y) simp_all

lemma apply_signals_foldl:
  "apply_signals sigs raw score
   = foldl js_add score (map points (filter (\<lambda>sig. test (pattern sig) raw) sigs))"
  by (induction sigs arbitrary: score) simp_all

lemma signal_total_map:
  "signal_total b (map (\<lambda>sig. (t sig, p sig)) sigs) = foldl js_add b (map p (filter t sigs))"
  by (simp add: signal_total_def filter_map comp_def)

lemma structureScore_of_signal_total:
  "structureScore_of raw = clamp_score (signal_total (Num 70) (structure_table raw))"
  unfolding structure_table_def signal_total_map
  by (simp add: structureScore_of_def clamp_score_def apply_signals_foldl)

lemma signal_total_permute:
  assumes "mset t = mset t'"
  shows "signal_total b t = signal_total b t'"
proof -
  have m: "mset (map snd (filter fst t)) = mset (map snd (filter fst t'))"
    using assms by (metis mset_filter mset_map)
  have "fold (\<lambda>x acc. js_add acc x) (map snd (filter fst t)) b
        = fold (\<lambda>x acc. js_add acc x) (map snd (filter fst t')) b"
    by (rule arg_cong[where f = "\<lambda>f. f b"], rule fold_multiset_equiv[OF _ m])
       (auto simp: fun_eq_iff js_add_swap)
  then show ?thesis by (simp add: signal_total_def foldl_conv_fold)
qed

lemma apply_signals_permute:
  assumes "mset sigs = mset sigs'"
  shows "apply_signals sigs raw b = apply_signals sigs' raw b"
proof -
  have "mset (map (\<lambda>sig. (test (pattern sig) raw, points sig)) sigs)
        = mset (map (\<lambda>sig. (test (pattern sig) raw, points sig)) sigs')"
    using assms by (metis mset_map)
  from signal_total_permute[OF this, of b] show ?thesis
    by (simp only: signal_total_map apply_signals_foldl)
qed

lemma clamp_min_max: "Math_min (Num 100) (Math_max (Num 0) x) = clamp_score x"
  by (cases x) (auto simp: clamp_score_def)

lemma keywordScore_of_signal_total:
  "keywordScore_of d h i = clamp_score (signal_total (Num 60) (keyword_table d h i))"
proof (cases d)
  case NaN
  then show ?thesis
    by (simp add: keywordScore_of_def keyword_table_def signal_total_def clamp_min_max
        js_ge_def js_gt_def)
next
  case (Num x)
  then show ?thesis
    by (simp add: keywordScore_of_def keyword_table_def signal_total_def clamp_min_max
        js_ge_def js_gt_def)
qed

lemma clamp_score_above: "js_gt x (Num 100) \<Longrightarrow> clamp_score x = Num 100"
  by (cases x) (auto simp: clamp_score_def js_gt_def)

lemma clamp_score_below: "js_lt x (Num 0) \<Longrightarrow> clamp_score x = Num 0"
  by (cases x) (auto simp: clamp_score_def)

text \<open>
  C5. The structure score is the baseline 70 plus the deltas of the signals of the two
  tables that match the text, clamped once at the end; the keyword score is the baseline
  60 plus the deltas of the density and placement signals that hold, clamped once at the
  end. The total does not depend on the order of the table, nor does the loop of the
  code over a table of signals, and a total above 100 or below 0 gives exactly 100 or 0.
\<close>

theorem signal_scores_clamped_once:
  "structureScore_of rawOutput = clamp_score (signal_total (Num 70) (structure_table rawOutput))
   \<and> keywordScore_of keywordDensity keywordInH1 keywordInIntro
       = clamp_score (signal_total (Num 60) (keyword_table keywordDensity keywordInH1 keywordInIntro))
   \<and> (mset t = mset t' \<longrightarrow> signal_total b t = signal_total b t')
   \<and> (mset sigs = mset sigs' \<longrightarrow> apply_signals sigs rawOutput b = apply_signals sigs' rawOutput b)
   \<and> (js_gt x (Num 100) \<longrightarrow> clamp_score x = Num 100)
   \<and> (js_lt y (Num 0) \<longrightarrow> clamp_score y = Num 0)"
  using structureScore_of_signal_total keywordScore_of_signal_total signal_total_permute
    apply_signals_permute clamp_score_above clamp_score_below
  by blast

text \<open>
  A text with four positive signals has the total 105 and the structure score 100;
  with a negative signal of 10 points after them the score is 95, not the 90 that
  clamping at every step would give; a density of 1.8 with the keyword in the heading gives the keyword score 90; a table
  and a permutation of it have the same total, and the table of the negative signals
  read backwards takes the same 15 points off a text with two of them.
\<close>

theorem signal_scores_clamped_once_witness:
  "signal_total (Num 70)
     (structure_table ''Clean, semantic URLs. URL structure: clean. Information architecture: good. Sitemap: Referenced'')
     = Num 105
   \<and> structureScore_of ''Clean, semantic URLs. URL structure: clean. Information architecture: good. Sitemap: Referenced''
     = Num 100
   \<and> structureScore_of ''Clean, semantic URLs. URL structure: clean. Information architecture: good. Sitemap: Referenced. Canonical URL: Missing''
     = Num 95
   \<and> keywordScore_of (Num (18 / 10)) True False = Num 90
   \<and> signal_total (Num 70) [(True, Num 30), (False, Num 5), (True, Num 10)]
       = signal_total (Num 70) [(True, Num 10), (True, Num 30), (False, Num 5)]
   \<and> apply_signals (rev negativeStructureSignals)
         ''Canonical URL: Missing. Sitemap: Not detected'' (Num 70) = Num 55
   \<and> apply_signals negativeStructureSignals
         ''Canonical URL: Missing. Sitemap: Not detected'' (Num 70) = Num 55
   \<and> clamp_score (Num 105) = Num 100
   \<and> clamp_score (Num (- 5)) = Num 0"
proof -
  have r: "apply_signals negativeStructureSignals
         ''Canonical URL: Missing. Sitemap: Not detected'' (Num 70) = Num 55"
    by code_simp
  have p: "mset (rev negativeStructureSignals) = mset negativeStructureSignals"
    by simp
  note c5 = signal_scores_clamped_once[of
      "''Canonical URL: Missing. Sitemap: Not detected''"
      "Num (18 / 10)" True False
      "[(True, Num 30), (False, Num 5), (True, Num 10)]"
      "[(True, Num 10), (True, Num 30), (False, Num 5)]" "Num 70"
      "rev negativeStructureSignals" negativeStructureSignals "Num 105" "Num (- 5)"]
  from c5 p r have r': "apply_signals (rev negativeStructureSignals)
         ''Canonical URL: Missing. Sitemap: Not detected'' (Num 70) = Num 55"
    by simp
  have t: "signal_total (Num 70)
     (structure_table ''Clean, semantic URLs. URL structure: clean. Information architecture: good. Sitemap: Referenced'')
     = Num 105"
    by code_simp
  have t': "clamp_score (signal_total (Num 70)
     (structure_table ''Clean, semantic URLs. URL structure: clean. Information architecture: good. Sitemap: Referenced. Canonical URL: Missing''))
     = Num 95"
    by code_simp
  from signal_scores_clamped_once[of
      "''Clean, semantic URLs. URL structure: clean. Information architecture: good. Sitemap: Referenced. Canonical URL: Missing''"
      "Num (18 / 10)" True False "[]" "[]" "Num 70" "[]" "[]" "Num 105" "Num (- 5)"] t'
  have s95: "structureScore_of ''Clean, semantic URLs. URL structure: clean. Information architecture: good. Sitemap: Referenced. Canonical URL: Missing''
     = Num 95"
    by simp
  have k: "clamp_score (signal_total (Num 60) (keyword_table (Num (18 / 10)) True False)) = Num 90"
    by code_simp
  have m: "mset [(True, Num 30), (False, Num 5), (True, Num 10)]
           = mset [(True, Num 10), (True, Num 30), (False, Num 5)]"
    by (simp add: add_mset_commute)
  have a: "js_gt (Num 105) (Num 100)" by (simp add: js_gt_def)
  have b: "js_lt (Num (- 5)) (Num 0)" by simp
  from signal_scores_clamped_once[of
      "''Clean, semantic URLs. URL structure: clean. Information architecture: good. Sitemap: Referenced''"
      "Num (18 / 10)" True False
      "[(True, Num 30), (False, Num 5), (True, Num 10)]"
      "[(True, Num 10), (True, Num 30), (False, Num 5)]" "Num 70"
      "[]" "[]" "Num 105" "Num (- 5)"]
    t k m a b r r' s95
  show ?thesis by simp
qed

section \<open>Removal of duplicates: properties\<close>

lemma dedupe_fixed_point:
  "foldl dedupe_step [] acc = acc \<Longrightarrow>
   foldl dedupe_step [] (foldl dedupe_step acc xs) = foldl dedupe_step acc xs"
  by (induction xs arbitrary: acc) (auto simp: dedupe_step_def)

lemma dedupe_extends:
  "\<exists>ys. foldl dedupe_step acc xs = acc @ ys \<and> subseq ys xs"
proof (induction xs arbitrary: acc)
  case Nil
  show ?case by simp
next
  case (Cons x xs)
  show ?case
  proof (cases "isDuplicate acc x")
    case True
    from Cons.IH[of acc] obtain ys
      where "foldl dedupe_step acc xs = acc @ ys" and "subseq ys xs"
      by blast
    moreover have "foldl dedupe_step acc (x # xs) = foldl dedupe_step acc xs"
      using True by (simp add: dedupe_step_def)
    ultimately show ?thesis
      by (auto intro: subseq_Cons')
  next
    case False
    from Cons.IH[of "acc @ [x]"] obtain ys
      where "foldl dedupe_step (acc @ [x]) xs = (acc @ [x]) @ ys" and "subseq ys xs"
      by blast
    moreover have "foldl dedupe_step acc (x # xs) = foldl dedupe_step (acc @ [x]) xs"
      using False by (simp add: dedupe_step_def)
    ultimately show ?thesis
      by (intro exI[of _ "x # ys"]) auto
  qed
qed

text \<open>
  C8. The removal of duplicates is idempotent; its result is a subsequence of its
  input, so the items that are kept stay in their order; and an item is kept exactly
  when no item kept before it is a duplicate of it, so the first item of every group
  of duplicates is the one that stays.
\<close>

theorem uniqueImprovements_idempotent_ordered:
  "uniqueImprovements (uniqueImprovements xs) = uniqueImprovements xs
   \<and> subseq (uniqueImprovements xs) xs
   \<and> uniqueImprovements (xs @ [x]) =
       (if isDuplicate (uniqueImprovements xs) x then uniqueImprovements xs
        else uniqueImprovements xs @ [x])"
proof (intro conjI)
  show "uniqueImprovements (uniqueImprovements xs) = uniqueImprovements xs"
    unfolding uniqueImprovements_def by (rule dedupe_fixed_point) simp
  show "subseq (uniqueImprovements xs) xs"
    using dedupe_extends[of "[]" xs] by (auto simp: uniqueImprovements_def)
  show "uniqueImprovements (xs @ [x]) =
       (if isDuplicate (uniqueImprovements xs) x then uniqueImprovements xs
        else uniqueImprovements xs @ [x])"
    by (simp add: uniqueImprovements_def dedupe_step_def)
qed

lemma lazy_loading_prefix_absent:
  "\<not> str_includes (toLowerCase ''Optimize images and implement lazy loading'')
        (take 20 (toLowerCase ''Optimize images for faster loading''))"
  by code_simp

lemma faster_loading_prefix_absent:
  "\<not> str_includes (toLowerCase ''Optimize images for faster loading'')
        (take 20 (toLowerCase ''Optimize images and implement lazy loading''))"
  by code_simp

text \<open>
  C6, as the code has it. The first twenty characters of either recommendation,
  \<open>optimize images and\<close> and \<open>optimize images for\<close> with the space that follows, do
  not occur in the other one, so the two are not duplicates, whatever their category,
  priority and effort: both are kept, in their order.
\<close>

theorem uniqueImprovements_keeps_both_image_items:
  "uniqueImprovements
     [\<lparr>category = c, recommendation = ''Optimize images and implement lazy loading'',
        priority = p, effort = e\<rparr>,
      \<lparr>category = c, recommendation = ''Optimize images for faster loading'',
        priority = p', effort = e'\<rparr>]
   = [\<lparr>category = c, recommendation = ''Optimize images and implement lazy loading'',
        priority = p, effort = e\<rparr>,
      \<lparr>category = c, recommendation = ''Optimize images for faster loading'',
        priority = p', effort = e'\<rparr>]"
  using lazy_loading_prefix_absent faster_loading_prefix_absent
  by (simp add: uniqueImprovements_def dedupe_step_def isDuplicate_def similar_def)

text \<open>
  C6, as the claim states it, fails: with the same category on both items the second
  one is not dropped.
\<close>

theorem uniqueImprovements_image_items_counterexample:
  "uniqueImprovements
     [\<lparr>category = ''Performance'',
        recommendation = ''Optimize images and implement lazy loading'',
        priority = ''Medium'', effort = ''Low''\<rparr>,
      \<lparr>category = ''Performance'', recommendation = ''Optimize images for faster loading'',
        priority = ''Medium'', effort = ''Low''\<rparr>]
   \<noteq> [\<lparr>category = ''Performance'',
         recommendation = ''Optimize images and implement lazy loading'',
         priority = ''Medium'', effort = ''Low''\<rparr>]"
  by code_simp

section \<open>Classification of a fragment\<close>

text \<open>
  C7. The fragment \<open>This is an urgent fix for mobile tap targets\<close> is classified as
  category Mobile, priority High (the word urgent), effort Medium (no word of either
  effort group occurs); a text that recommends it has it as its first improvement,
  with these three labels.
\<close>

theorem classify_urgent_mobile_fragment:
  "improvement_category_of ''This is an urgent fix for mobile tap targets'' = ''Mobile''
   \<and> improvement_priority_of ''This is an urgent fix for mobile tap targets'' = ''High''
   \<and> improvement_effort_of ''This is an urgent fix for mobile tap targets'' = ''Medium''
   \<and> map_option (map_sum id (\<lambda>r. take 1 (improvements r)))
         (formatTechnicalSeoResults
            ''Recommendation: This is an urgent fix for mobile tap targets'')
       = Some (Inr [\<lparr>category = ''Mobile'',
                      recommendation = ''This is an urgent fix for mobile tap targets.'',
                      priority = ''High'', effort = ''Medium''\<rparr>])"
  by code_simp

section \<open>The two functions return\<close>

lemma first_capture_no_match:
  "\<forall>regex \<in> set regexes. match raw regex = None \<Longrightarrow> first_capture regexes raw = None"
  by (induction regexes) simp_all

lemma apply_signals_no_match:
  "\<forall>sig \<in> set sigs. \<not> test (pattern sig) raw \<Longrightarrow> apply_signals sigs raw score = score"
  by (induction sigs arbitrary: score) simp_all

lemma overallScore_of_defaults: "overallScore_of (Num 65) (Num 70) (Num 70) (Num 50) = Num 65"
  by (simp add: overallScore_of_def floor_eq_iff)

lemma technical_scores:
  "\<exists>r. formatTechnicalSeoResults rawOutput = Some (Inr r)
     \<and> performanceScore r = performanceScore_of rawOutput
     \<and> mobileScore r = mobileScore_of rawOutput
     \<and> structureScore r = structureScore_of rawOutput
     \<and> schemaScore r = schemaScore_of rawOutput
     \<and> overallScore r = overallScore_of (performanceScore_of rawOutput) (mobileScore_of rawOutput)
          (structureScore_of rawOutput) (schemaScore_of rawOutput)"
proof -
  from scan_for_total[where body = issue_body, OF issueRegexes_ok issue_body_total] obtain issues where
    1: "scan_for issue_body (\<lambda>issues. length issues \<ge> 5) issueRegexes rawOutput [] = Some (Inr issues)"
    by blast
  from scan_for_total[where body = improvement_body, OF improvementRegexes_ok improvement_body_total]
  obtain imps where
    2: "scan_for improvement_body (\<lambda>xs. length xs \<ge> 7) improvementRegexes rawOutput [] = Some (Inr imps)"
    by blast
  show ?thesis unfolding formatTechnicalSeoResults_def Let_def
    by (simp only: 1 2 option.case sum.case) simp
qed

lemma keyword_of_nonempty: "keyword_of raw \<noteq> []"
proof -
  have "first_capture regexes raw = Some (regex, g) \<Longrightarrow> g \<noteq> []" for regexes regex g
    by (induction regexes) (auto simp: truthy_def toString_def split: option.splits if_splits)
  then show ?thesis by (auto simp: keyword_of_def split: option.splits)
qed

lemma content_fields:
  "\<exists>r. formatContentResults rawOutput = Some (Inr r)
     \<and> readabilityScore r = readabilityScore_of rawOutput
     \<and> semanticScore r = semanticScore_of rawOutput
     \<and> improvedTitle r = Some (improvedTitle_of rawOutput (keyword_of rawOutput))
     \<and> improvedMetaDescription r
         = Some (improvedMetaDescription_of rawOutput (keyword_of rawOutput))"
proof -
  from scan_for_total[where body = recommendation_body,
      OF recommendationRegexes_ok recommendation_body_total]
  obtain recs where
    1: "scan_for recommendation_body (\<lambda>xs. False) recommendationRegexes rawOutput []
          = Some (Inr recs)"
    by blast
  show ?thesis unfolding formatContentResults_def Let_def
    by (simp only: 1 option.case sum.case) simp
qed

lemma first_long_capture_no_match:
  "\<forall>regex \<in> set regexes. match raw regex = None \<Longrightarrow> first_long_capture n regexes raw = None"
  by (induction regexes) simp_all

lemma semantic_default: "Math_round (js_mul (Num 7) (Num 10)) = Num 70"
  by (simp add: floor_eq_iff)

text \<open>
  C2, as the code has it. Both functions return a record for every input: no loop runs
  for ever and nothing is thrown, and the two optional fields are present. Where no
  pattern of a score matches, the score is its default. (What the claim says of a
  captured group that is not a number does not hold, see below; no error arises from
  such a group either.)
\<close>

theorem formatters_total:
  "\<exists>r c. formatTechnicalSeoResults rawOutput = Some (Inr r)
     \<and> formatContentResults rawOutput = Some (Inr c)
     \<and> improvedTitle c \<noteq> None \<and> improvedMetaDescription c \<noteq> None
     \<and> ((\<forall>regex \<in> set performanceRegexes. match rawOutput regex = None)
          \<longrightarrow> performanceScore r = Num 65)
     \<and> ((\<forall>regex \<in> set mobileRegexes. match rawOutput regex = None)
          \<longrightarrow> mobileScore r = Num 70)
     \<and> ((\<forall>regex \<in> set readabilityRegexes. match rawOutput regex = None)
          \<longrightarrow> readabilityScore c = Num 65)
     \<and> ((\<forall>regex \<in> set semanticScoreRegexes. match rawOutput regex = None)
          \<longrightarrow> semanticScore c = Num 70)"
proof -
  from technical_scores[of rawOutput] obtain r where
    r: "formatTechnicalSeoResults rawOutput = Some (Inr r)"
       "performanceScore r = performanceScore_of rawOutput"
       "mobileScore r = mobileScore_of rawOutput"
    by blast
  from content_fields[of rawOutput] obtain c where
    c: "formatContentResults rawOutput = Some (Inr c)"
       "readabilityScore c = readabilityScore_of rawOutput"
       "semanticScore c = semanticScore_of rawOutput"
       "improvedTitle c \<noteq> None" "improvedMetaDescription c \<noteq> None"
    by auto
  have "(\<forall>regex \<in> set performanceRegexes. match rawOutput regex = None)
          \<longrightarrow> performanceScore r = Num 65"
    using r by (simp add: performanceScore_of_def first_capture_no_match)
  moreover have "(\<forall>regex \<in> set mobileRegexes. match rawOutput regex = None)
          \<longrightarrow> mobileScore r = Num 70"
    using r by (simp add: mobileScore_of_def first_capture_no_match)
  moreover have "(\<forall>regex \<in> set readabilityRegexes. match rawOutput regex = None)
          \<longrightarrow> readabilityScore c = Num 65"
    using c by (simp add: readabilityScore_of_def first_capture_no_match)
  moreover have "(\<forall>regex \<in> set semanticScoreRegexes. match rawOutput regex = None)
          \<longrightarrow> semanticScore c = Num 70"
    using c semantic_default
    by (simp add: semanticScore_of_def topicScoreRaw_of_def first_capture_no_match)
  ultimately show ?thesis using r(1) c(1,4,5) by blast
qed

text \<open>A text without any of the patterns: all four scores are the defaults.\<close>

theorem formatters_total_witness:
  "\<exists>r c. formatTechnicalSeoResults ''Hola, que tal?'' = Some (Inr r)
     \<and> formatContentResults ''Hola, que tal?'' = Some (Inr c)
     \<and> performanceScore r = Num 65 \<and> mobileScore r = Num 70
     \<and> readabilityScore c = Num 65 \<and> semanticScore c = Num 70"
proof -
  have 1: "\<forall>regex \<in> set performanceRegexes. match ''Hola, que tal?'' regex = None" by code_simp
  have 2: "\<forall>regex \<in> set mobileRegexes. match ''Hola, que tal?'' regex = None" by code_simp
  have 3: "\<forall>regex \<in> set readabilityRegexes. match ''Hola, que tal?'' regex = None" by code_simp
  have 4: "\<forall>regex \<in> set semanticScoreRegexes. match ''Hola, que tal?'' regex = None" by code_simp
  from formatters_total[of "''Hola, que tal?''"] 1 2 3 4 show ?thesis by blast
qed

text \<open>
  C2, as the claim states it, fails where it says that a captured group that is not a
  number falls through to the default. The group \<^verbatim>\<open>([\d.]+)\<close> accepts a lone
  full stop; \<^verbatim>\<open>parseFloat\<close> makes it \<open>NaN\<close>, and the semantic score and the
  content score are \<open>NaN\<close>, where the default path gives 70 for the semantic score.
\<close>

theorem unparsable_group_counterexample:
  "map_option (map_sum id (\<lambda>r. (semanticScore r, contentScore r)))
     (formatContentResults ''Topic coverage score: ./10'') = Some (Inr (NaN, NaN))"
  by code_simp

section \<open>Defaults\<close>

text \<open>
  C3. When the text matches no pattern of the performance, mobile and schema scores, no
  signal of the structure score and no phrase of the schema score, the function returns
  a record (nothing is raised) with performance 65, mobile 70, structure 70, schema 50
  and overall score 65.
\<close>

theorem defaults_when_nothing_matches:
  assumes "\<forall>regex \<in> set (performanceRegexes @ mobileRegexes @ schemaRegexes).
             match rawOutput regex = None"
    and "\<forall>sig \<in> set (structureSignals @ negativeStructureSignals).
             \<not> test (pattern sig) rawOutput"
    and "\<forall>phrase \<in> set schemaPhrases. \<not> str_includes rawOutput phrase"
  shows "\<exists>r. formatTechnicalSeoResults rawOutput = Some (Inr r)
           \<and> performanceScore r = Num 65 \<and> mobileScore r = Num 70
           \<and> structureScore r = Num 70 \<and> schemaScore r = Num 50
           \<and> overallScore r = Num 65"
proof -
  from assms(1) have p: "performanceScore_of rawOutput = Num 65"
    by (simp add: performanceScore_of_def first_capture_no_match)
  from assms(1) have m: "mobileScore_of rawOutput = Num 70"
    by (simp add: mobileScore_of_def first_capture_no_match)
  from assms(2) have s: "structureScore_of rawOutput = Num 70"
    by (simp add: structureScore_of_def apply_signals_no_match)
  from assms(1) have "first_capture schemaRegexes rawOutput = None"
    by (simp add: first_capture_no_match)
  with assms(3) have c: "schemaScore_of rawOutput = Num 50"
    by (simp add: schemaScore_of_def schemaPhrases_def)
  from technical_scores[of rawOutput] p m s c overallScore_of_defaults show ?thesis
    by auto
qed

text \<open>The empty text is such a text.\<close>

theorem defaults_when_nothing_matches_witness:
  "\<exists>r. formatTechnicalSeoResults '''' = Some (Inr r)
       \<and> performanceScore r = Num 65 \<and> mobileScore r = Num 70
       \<and> structureScore r = Num 70 \<and> schemaScore r = Num 50
       \<and> overallScore r = Num 65"
proof -
  have 1: "\<forall>regex \<in> set (performanceRegexes @ mobileRegexes @ schemaRegexes). match '''' regex = None"
    by code_simp
  have 2: "\<forall>sig \<in> set (structureSignals @ negativeStructureSignals). \<not> test (pattern sig) ''''"
    by code_simp
  have 3: "\<forall>phrase \<in> set schemaPhrases. \<not> str_includes '''' phrase"
    by code_simp
  from defaults_when_nothing_matches[OF 1 2 3] show ?thesis .
qed

section \<open>Precedence of the patterns\<close>

lemma first_capture_first:
  "i < length regexes \<Longrightarrow> match raw (regexes ! i) = Some m \<Longrightarrow> truthy (grp m 1) \<Longrightarrow>
   \<forall>j<i. match raw (regexes ! j) = None \<Longrightarrow>
   first_capture regexes raw = Some (regexes ! i, toString (grp m 1))"
proof (induction regexes arbitrary: i)
  case Nil
  then show ?case by simp
next
  case (Cons regex regexes)
  show ?case
  proof (cases i)
    case 0
    with Cons.prems show ?thesis by simp
  next
    case (Suc k)
    with Cons.prems have "match raw regex = None" by auto
    moreover from Suc Cons.prems have "first_capture regexes raw = Some (regexes ! k, toString (grp m 1))"
      by (intro Cons.IH) auto
    ultimately show ?thesis using Suc by simp
  qed
qed

lemma performanceRegexes_nonempty_group:
  "\<forall>regex \<in> set performanceRegexes. binds_nonempty 1 regex"
  by (simp add: performanceRegexes_def)

lemma mobileRegexes_nonempty_group:
  "\<forall>regex \<in> set mobileRegexes. binds_nonempty 1 regex"
  by (simp add: mobileRegexes_def)

text \<open>
  A group \<^verbatim>\<open>(\d+)\<close> holds digits only, and \<^verbatim>\<open>parseInt\<close> of digits is their
  value: it is never the \<open>-1\<close> that stands for a schema score not found.
\<close>

lemma digit_not_space: "is_digit x \<Longrightarrow> \<not> is_space x"
  by (auto simp: is_digit_def is_space_def)

lemma digit_not_sign: "is_digit x \<Longrightarrow> x \<noteq> CHR ''-'' \<and> x \<noteq> CHR ''+'' \<and> x \<noteq> CHR ''x'' \<and> x \<noteq> CHR ''X''"
  by (auto simp: is_digit_def)

lemma digits_no_hex_prefix:
  "\<forall>x \<in> set v. is_digit x \<Longrightarrow> \<not> startsWith v ''0x'' \<and> \<not> startsWith v ''0X''"
proof (cases v)
  case Nil
  then show ?thesis by simp
next
  case (Cons a w)
  assume d: "\<forall>x \<in> set v. is_digit x"
  show ?thesis
  proof (cases w)
    case Nil
    with Cons show ?thesis by simp
  next
    case (Cons b w')
    with d \<open>v = a # w\<close> have "is_digit b" by simp
    from digit_not_sign[OF this] Cons \<open>v = a # w\<close> show ?thesis by simp
  qed
qed

lemma parseInt_digits:
  assumes "v \<noteq> []" "\<forall>x \<in> set v. is_digit x"
  shows "parseInt v = Num (of_nat (digits_val 10 digit_val v))"
proof -
  from assms obtain a w where v: "v = a # w" by (cases v) auto
  with assms have a: "is_digit a" by simp
  from a v have t: "trimStart v = v" by (simp add: trimStart_def digit_not_space)
  from a v digit_not_sign[OF a] have sg: "split_sign v = (False, v)" by simp
  from assms(2) have tw: "takeWhile is_digit v = v" by simp
  from digits_no_hex_prefix[OF assms(2)] assms(1) show ?thesis
    unfolding parseInt_def t sg
    by (simp add: Let_def signed_def tw del: takeWhile_eq_all_conv)
qed

lemma parseInt_digits_not_minus_one:
  assumes "v \<noteq> []" "\<forall>x \<in> set v. is_digit x"
  shows "\<not> js_eq (parseInt v) (Num (- 1))"
proof -
  have "(of_nat (digits_val 10 digit_val v) :: rat) \<noteq> - 1"
    by (metis of_nat_0_le_iff neg_0_le_iff_le not_one_le_zero)
  with parseInt_digits[OF assms] show ?thesis by simp
qed

lemma schemaRegexes_digits:
  "\<forall>regex \<in> set schemaRegexes. binds_nonempty 1 regex \<and> binds_class 1 Digit regex"
  by (simp add: schemaRegexes_def)

lemma schemaScore_of_direct:
  assumes "first_capture schemaRegexes raw = Some (regex, v)"
    and "v \<noteq> []" "\<forall>x \<in> set v. is_digit x"
  shows "schemaScore_of raw = parseInt v"
  using assms(1) parseInt_digits_not_minus_one[OF assms(2,3)]
  by (simp add: schemaScore_of_def)

text \<open>
  C4. When a pattern of the performance score matches somewhere in the text and no
  pattern declared before it matches anywhere, the score is read from the first group
  of that match, whatever the later patterns match and wherever the matches lie; the
  same holds for the mobile score and for the schema score.
\<close>

theorem first_declared_pattern_wins:
  "\<exists>r. formatTechnicalSeoResults rawOutput = Some (Inr r)
     \<and> (i < length performanceRegexes \<and> match rawOutput (performanceRegexes ! i) = Some m
          \<and> (\<forall>j<i. match rawOutput (performanceRegexes ! j) = None)
        \<longrightarrow> performanceScore r = parseInt (toString (grp m 1)))
     \<and> (i' < length mobileRegexes \<and> match rawOutput (mobileRegexes ! i') = Some m'
          \<and> (\<forall>j<i'. match rawOutput (mobileRegexes ! j) = None)
        \<longrightarrow> mobileScore r = parseInt (toString (grp m' 1)))
     \<and> (i'' < length schemaRegexes \<and> match rawOutput (schemaRegexes ! i'') = Some m''
          \<and> (\<forall>j<i''. match rawOutput (schemaRegexes ! j) = None)
        \<longrightarrow> schemaScore r = parseInt (toString (grp m'' 1)))"
proof -
  have p: "performanceScore_of rawOutput = parseInt (toString (grp m 1))"
    if "i < length performanceRegexes" "match rawOutput (performanceRegexes ! i) = Some m"
       "\<forall>j<i. match rawOutput (performanceRegexes ! j) = None"
  proof -
    from that(1) performanceRegexes_nonempty_group
    have "binds_nonempty 1 (performanceRegexes ! i)" by simp
    from match_post(4)[OF that(2) this] first_capture_first[OF that(1,2) _ that(3)]
    show ?thesis by (simp add: performanceScore_of_def)
  qed
  have q: "mobileScore_of rawOutput = parseInt (toString (grp m' 1))"
    if "i' < length mobileRegexes" "match rawOutput (mobileRegexes ! i') = Some m'"
       "\<forall>j<i'. match rawOutput (mobileRegexes ! j) = None"
  proof -
    from that(1) mobileRegexes_nonempty_group
    have "binds_nonempty 1 (mobileRegexes ! i')" by simp
    from match_post(4)[OF that(2) this] first_capture_first[OF that(1,2) _ that(3)]
    show ?thesis by (simp add: mobileScore_of_def)
  qed
  have c: "schemaScore_of rawOutput = parseInt (toString (grp m'' 1))"
    if "i'' < length schemaRegexes" "match rawOutput (schemaRegexes ! i'') = Some m''"
       "\<forall>j<i''. match rawOutput (schemaRegexes ! j) = None"
  proof -
    from that(1) schemaRegexes_digits
    have b: "binds_nonempty 1 (schemaRegexes ! i'')" "binds_class 1 Digit (schemaRegexes ! i'')"
      by simp_all
    from match_post(4)[OF that(2) b(1)] have t: "truthy (grp m'' 1)" .
    then have n: "toString (grp m'' 1) \<noteq> []"
      by (auto simp: truthy_def toString_def split: option.splits)
    from match_post(5)[OF that(2) b(2)] have d: "\<forall>x \<in> set (toString (grp m'' 1)). is_digit x"
      by simp
    from first_capture_first[OF that(1,2) t that(3)] show ?thesis
      by (rule schemaScore_of_direct[OF _ n d])
  qed
  from technical_scores[of rawOutput] p q c show ?thesis by auto
qed

text \<open>
  In each text the last pattern but two matches at the start and a pattern declared
  before it matches further on: the score is the one of the pattern declared first.
\<close>

theorem first_declared_pattern_wins_witness:
  "map_option index (match ''Performance: 40/100. Performance score: 80/100'' (performanceRegexes ! 2)) = Some 0
   \<and> map_option index (match ''Performance: 40/100. Performance score: 80/100'' (performanceRegexes ! 0)) = Some 21
   \<and> (\<exists>r. formatTechnicalSeoResults ''Performance: 40/100. Performance score: 80/100'' = Some (Inr r)
          \<and> performanceScore r = Num 80)
   \<and> map_option index (match ''Mobile: 55/100, mobile score: 90/100'' (mobileRegexes ! 2)) = Some 0
   \<and> map_option index (match ''Mobile: 55/100, mobile score: 90/100'' (mobileRegexes ! 1)) = Some 16
   \<and> (\<exists>r. formatTechnicalSeoResults ''Mobile: 55/100, mobile score: 90/100'' = Some (Inr r)
          \<and> mobileScore r = Num 90)
   \<and> map_option index (match ''Schema markup rating: 40. Schema score: 75/100'' (schemaRegexes ! 2)) = Some 0
   \<and> map_option index (match ''Schema markup rating: 40. Schema score: 75/100'' (schemaRegexes ! 0)) = Some 26
   \<and> (\<exists>r. formatTechnicalSeoResults ''Schema markup rating: 40. Schema score: 75/100'' = Some (Inr r)
          \<and> schemaScore r = Num 75)"
proof -
  have e: "map_option index (match ''Performance: 40/100. Performance score: 80/100'' (performanceRegexes ! 2)) = Some 0"
    by code_simp
  have l: "map_option index (match ''Performance: 40/100. Performance score: 80/100'' (performanceRegexes ! 0)) = Some 21"
    by code_simp
  have g: "map_option (\<lambda>m. parseInt (toString (grp m 1)))
             (match ''Performance: 40/100. Performance score: 80/100'' (performanceRegexes ! 0)) = Some (Num 80)"
    by code_simp
  then obtain m where m: "match ''Performance: 40/100. Performance score: 80/100'' (performanceRegexes ! 0) = Some m"
    "parseInt (toString (grp m 1)) = Num 80"
    by auto
  have i: "(0::nat) < length performanceRegexes" by (simp add: performanceRegexes_def)
  from first_declared_pattern_wins[of "''Performance: 40/100. Performance score: 80/100''"
      0 m 0 undefined 0 undefined] m i
  have p: "\<exists>r. formatTechnicalSeoResults ''Performance: 40/100. Performance score: 80/100'' = Some (Inr r)
          \<and> performanceScore r = Num 80"
    by auto
  have e': "map_option index (match ''Mobile: 55/100, mobile score: 90/100'' (mobileRegexes ! 2)) = Some 0"
    by code_simp
  have l': "map_option index (match ''Mobile: 55/100, mobile score: 90/100'' (mobileRegexes ! 1)) = Some 16"
    by code_simp
  have n0: "match ''Mobile: 55/100, mobile score: 90/100'' (mobileRegexes ! 0) = None"
    by code_simp
  have g': "map_option (\<lambda>m. parseInt (toString (grp m 1)))
             (match ''Mobile: 55/100, mobile score: 90/100'' (mobileRegexes ! 1)) = Some (Num 90)"
    by code_simp
  then obtain m' where m': "match ''Mobile: 55/100, mobile score: 90/100'' (mobileRegexes ! 1) = Some m'"
    "parseInt (toString (grp m' 1)) = Num 90"
    by auto
  have i': "(1::nat) < length mobileRegexes" by (simp add: mobileRegexes_def)
  from first_declared_pattern_wins[of "''Mobile: 55/100, mobile score: 90/100''"
      0 undefined 1 m' 0 undefined] m' i' n0
  have q: "\<exists>r. formatTechnicalSeoResults ''Mobile: 55/100, mobile score: 90/100'' = Some (Inr r)
          \<and> mobileScore r = Num 90"
    by auto
  have e'': "map_option index (match ''Schema markup rating: 40. Schema score: 75/100'' (schemaRegexes ! 2)) = Some 0"
    by code_simp
  have l'': "map_option index (match ''Schema markup rating: 40. Schema score: 75/100'' (schemaRegexes ! 0)) = Some 26"
    by code_simp
  have g'': "map_option (\<lambda>m. parseInt (toString (grp m 1)))
             (match ''Schema markup rating: 40. Schema score: 75/100'' (schemaRegexes ! 0)) = Some (Num 75)"
    by code_simp
  then obtain m'' where m'': "match ''Schema markup rating: 40. Schema score: 75/100'' (schemaRegexes ! 0) = Some m''"
    "parseInt (toString (grp m'' 1)) = Num 75"
    by auto
  have i'': "(0::nat) < length schemaRegexes" by (simp add: schemaRegexes_def)
  from first_declared_pattern_wins[of "''Schema markup rating: 40. Schema score: 75/100''"
      0 undefined 0 undefined 0 m''] m'' i''
  have c: "\<exists>r. formatTechnicalSeoResults ''Schema markup rating: 40. Schema score: 75/100'' = Some (Inr r)
          \<and> schemaScore r = Num 75"
    by auto
  from e l p e' l' q e'' l'' c show ?thesis by blast
qed

section \<open>Scores out of range\<close>

text \<open>
  C1 fails on the code. A score that is read from the text is stored as it is parsed:
  \<open>Performance score: 250/100\<close> gives the performance score 250 and the overall score
  139, \<open>Schema score: 250/100\<close> gives the schema score 250, past the clamp that the
  other path of the schema score ends with, and \<open>Topic coverage score: 50/10\<close> gives
  the semantic score 500 and the content score 202.
\<close>

theorem parsed_scores_out_of_range:
  "map_option (map_sum id (\<lambda>r. (performanceScore r, overallScore r)))
     (formatTechnicalSeoResults ''Performance score: 250/100'') = Some (Inr (Num 250, Num 139))
   \<and> map_option (map_sum id schemaScore)
     (formatTechnicalSeoResults ''Schema score: 250/100'') = Some (Inr (Num 250))
   \<and> map_option (map_sum id (\<lambda>r. (semanticScore r, contentScore r)))
     (formatContentResults ''Topic coverage score: 50/10'') = Some (Inr (Num 500, Num 202))"
  by code_simp

section \<open>Title and meta description\<close>

text \<open>
  C10. For every input the function returns a record whose title and meta description
  are present and not empty. Where no title or meta description is taken from the text,
  they are built from the keyword, which is never empty and is \<open>your topic\<close> where
  none is taken from the text.
\<close>

theorem optional_fields_populated:
  "\<exists>r t d. formatContentResults rawOutput = Some (Inr r)
     \<and> improvedTitle r = Some t \<and> t \<noteq> []
     \<and> improvedMetaDescription r = Some d \<and> d \<noteq> []
     \<and> keyword_of rawOutput \<noteq> []
     \<and> (first_capture keywordRegexes rawOutput = None \<longrightarrow> keyword_of rawOutput = ''your topic'')
     \<and> (first_long_capture 10 titleRegexes rawOutput = None \<longrightarrow>
          t = capitalize (keyword_of rawOutput) @ '': Complete Guide & Best Practices | YourBrand'')
     \<and> (first_long_capture 20 metaRegexes rawOutput = None \<longrightarrow>
          d = ''Learn everything about '' @ keyword_of rawOutput
              @ '' in this comprehensive guide. Discover best practices, examples, and expert tips to maximize your results.'')"
proof -
  from content_fields[of rawOutput] obtain r where
    r: "formatContentResults rawOutput = Some (Inr r)"
       "improvedTitle r = Some (improvedTitle_of rawOutput (keyword_of rawOutput))"
       "improvedMetaDescription r
          = Some (improvedMetaDescription_of rawOutput (keyword_of rawOutput))"
    by blast
  have k: "first_capture keywordRegexes rawOutput = None \<longrightarrow> keyword_of rawOutput = ''your topic''"
    by (simp add: keyword_of_def)
  have t: "first_long_capture 10 titleRegexes rawOutput = None \<longrightarrow>
          improvedTitle_of rawOutput (keyword_of rawOutput)
          = capitalize (keyword_of rawOutput) @ '': Complete Guide & Best Practices | YourBrand''"
    by (simp add: improvedTitle_of_def)
  have d: "first_long_capture 20 metaRegexes rawOutput = None \<longrightarrow>
          improvedMetaDescription_of rawOutput (keyword_of rawOutput)
          = ''Learn everything about '' @ keyword_of rawOutput
              @ '' in this comprehensive guide. Discover best practices, examples, and expert tips to maximize your results.''"
    by (simp add: improvedMetaDescription_of_def)
  show ?thesis
    apply (rule exI[of _ r])
    apply (rule exI[of _ "improvedTitle_of rawOutput (keyword_of rawOutput)"])
    apply (rule exI[of _ "improvedMetaDescription_of rawOutput (keyword_of rawOutput)"])
    using r k t d improvedTitle_of_nonempty[of rawOutput "keyword_of rawOutput"]
      improvedMetaDescription_of_nonempty[of rawOutput "keyword_of rawOutput"]
      keyword_of_nonempty[of rawOutput]
    apply (intro conjI)
            apply assumption+
    done
qed

text \<open>A text without patterns: both fields are built from \<open>your topic\<close>.\<close>

theorem optional_fields_populated_witness:
  "\<exists>r. formatContentResults ''No patterns in here'' = Some (Inr r)
     \<and> improvedTitle r = Some ''Your topic: Complete Guide & Best Practices | YourBrand''
     \<and> improvedMetaDescription r = Some ''Learn everything about your topic in this comprehensive guide. Discover best practices, examples, and expert tips to maximize your results.''"
proof -
  have 1: "first_capture keywordRegexes ''No patterns in here'' = None" by code_simp
  have 2: "first_long_capture 10 titleRegexes ''No patterns in here'' = None" by code_simp
  have 3: "first_long_capture 20 metaRegexes ''No patterns in here'' = None" by code_simp
  have 4: "capitalize ''your topic'' = ''Your topic''" by code_simp
  from optional_fields_populated[of "''No patterns in here''"] 1 2 3 4 show ?thesis
    by auto
qed

end
